theory Spec2Isabelle
  imports Complex_Main
begin

section \<open>Conventions of the embedding\<close>

text \<open>
  The TAT monitoring engine of the extension is JavaScript. Its values are embedded as
  follows.
  \<^item> A JS string is a \<open>string\<close>; every \<open>char\<close> stands for one code unit below 256.
  \<^item> A JS number that holds an instant (milliseconds since the epoch) or a digit group
    is an \<open>int\<close>; a JS number that holds hours is a \<open>real\<close>. The hours of a ticket
    record and of a disposition record are quotients of integer milliseconds, rounded
    once to a tenth, and are computed exactly; the rollup of the analytics store adds,
    divides and multiplies such hours, and there each operation is rounded to a binary
    double. Infinities and NaN are outside the embedding.
  \<^item> \<open>Date.now()\<close> is the parameter \<open>now\<close>; the host's conversion of a local time value
    to UTC is the parameter \<open>utc\<close>.
  \<^item> \<open>chrome.storage.local\<close> is passed explicitly: the object \<open>tatTickets\<close> is a map from
    ticket ids to records, the array \<open>tatHistory\<close> is a list.
\<close>

section \<open>Strings\<close>

text \<open>\<open>String.prototype.toLowerCase\<close> on code units below 256.\<close>

definition toLowerCase_char :: "char \<Rightarrow> char" where
  "toLowerCase_char c =
     (let n = (of_char c :: nat)
      in if (65 \<le> n \<and> n \<le> 90) \<or> (192 \<le> n \<and> n \<le> 214) \<or> (216 \<le> n \<and> n \<le> 222)
         then char_of (n + 32) else c)"

definition toLowerCase :: "string \<Rightarrow> string" where
  "toLowerCase s = map toLowerCase_char s"

fun startsWith :: "string \<Rightarrow> string \<Rightarrow> bool" where
  "startsWith s [] = True"
| "startsWith [] (k # ks) = False"
| "startsWith (c # cs) (k # ks) = (c = k \<and> startsWith cs ks)"

text \<open>\<open>String.prototype.includes\<close>: the keyword occurs at some position.\<close>

fun str_includes :: "string \<Rightarrow> string \<Rightarrow> bool" where
  "str_includes [] k = startsWith [] k"
| "str_includes (c # cs) k = (startsWith (c # cs) k \<or> str_includes cs k)"

section \<open>SLA classifier\<close>

record sopMatch =
  category :: string
  tat :: real

text \<open>\<open>matchSOPCategory\<close> of the background tracker (tat-tracker-background.js).\<close>

definition matchSOPCategory :: "string \<Rightarrow> sopMatch" where
  "matchSOPCategory subject =
     (if subject = [] then \<lparr>category = ''General'', tat = 48\<rparr>
      else let lower = toLowerCase subject in
        if str_includes lower ''shortage'' \<or> str_includes lower ''loss'' \<or>
           str_includes lower ''debit'' \<or> str_includes lower ''hardstop''
        then \<lparr>category = ''Losses & Debits'', tat = 72\<rparr>
        else if str_includes lower ''payment'' \<or> str_includes lower ''invoice'' \<or>
                str_includes lower ''payout'' \<or> str_includes lower ''gst''
        then (if str_includes lower ''not received'' \<or> str_includes lower ''pending''
              then \<lparr>category = ''Payments'', tat = 12\<rparr>
              else \<lparr>category = ''Payments'', tat = 72\<rparr>)
        else if str_includes lower ''cod'' \<or> str_includes lower ''deposit'' \<or> str_includes lower ''cash''
        then \<lparr>category = ''COD'', tat = 24\<rparr>
        else if str_includes lower ''load'' \<or> str_includes lower ''volume'' \<or>
                str_includes lower ''manifest''
        then \<lparr>category = ''Orders & Planning'', tat = 12\<rparr>
        else if str_includes lower ''cms'' \<or> str_includes lower ''log10'' \<or> str_includes lower ''system''
        then \<lparr>category = ''Tech Issues'', tat = 24\<rparr>
        else \<lparr>category = ''General'', tat = 48\<rparr>)"

text \<open>
  \<open>TicketTracker.matchSOPCategory\<close> of tat-system/ticket-tracker.js: the same chain with
  the longer keyword sets. In JS \<open>&&\<close> binds tighter than \<open>||\<close>, so the shipment test
  is the last disjunct of rule 1.
\<close>

definition matchSOPCategory_tracker :: "string \<Rightarrow> sopMatch" where
  "matchSOPCategory_tracker subject =
     (if subject = [] then \<lparr>category = ''General'', tat = 48\<rparr>
      else let lower = toLowerCase subject in
        if str_includes lower ''shortage'' \<or> str_includes lower ''loss'' \<or>
           str_includes lower ''debit'' \<or> str_includes lower ''hardstop'' \<or>
           (str_includes lower ''shipment'' \<and>
              (str_includes lower ''short'' \<or> str_includes lower ''missing''))
        then \<lparr>category = ''Losses & Debits'', tat = 72\<rparr>
        else if str_includes lower ''payment'' \<or> str_includes lower ''invoice'' \<or>
                str_includes lower ''payout'' \<or> str_includes lower ''gst'' \<or>
                str_includes lower ''pending sign''
        then (if str_includes lower ''not received'' \<or> str_includes lower ''pending''
              then \<lparr>category = ''Payments'', tat = 12\<rparr>
              else \<lparr>category = ''Payments'', tat = 72\<rparr>)
        else if str_includes lower ''cod'' \<or> str_includes lower ''deposit'' \<or>
                str_includes lower ''cash'' \<or> str_includes lower ''pendency''
        then \<lparr>category = ''COD'', tat = 24\<rparr>
        else if str_includes lower ''load'' \<or> str_includes lower ''volume'' \<or>
                str_includes lower ''manifest'' \<or> str_includes lower ''planning''
        then \<lparr>category = ''Orders & Planning'', tat = 12\<rparr>
        else if str_includes lower ''cms'' \<or> str_includes lower ''log10'' \<or>
                str_includes lower ''system'' \<or> str_includes lower ''tool'' \<or>
                str_includes lower ''bagging'' \<or> str_includes lower ''inactive''
        then \<lparr>category = ''Tech Issues'', tat = 24\<rparr>
        else \<lparr>category = ''General'', tat = 48\<rparr>)"

subsection \<open>The classifier as a table\<close>

text \<open>
  The specification describes the classifier as a search over an ordered table: a rule
  has trigger keywords, of which one must occur in the lower-cased subject, and may
  have further keywords, of which one must occur as well; the first rule that matches
  gives the result, and General with 48 hours is the result when none does.
\<close>

type_synonym slaRule = "string list \<times> string list \<times> sopMatch"

fun firstMatch :: "slaRule list \<Rightarrow> string \<Rightarrow> sopMatch" where
  "firstMatch [] lower = \<lparr>category = ''General'', tat = 48\<rparr>"
| "firstMatch ((keys, extra, result) # rules) lower =
     (if list_ex (str_includes lower) keys \<and> (extra = [] \<or> list_ex (str_includes lower) extra)
      then result else firstMatch rules lower)"

definition classify :: "slaRule list \<Rightarrow> string \<Rightarrow> sopMatch" where
  "classify table subj = firstMatch table (toLowerCase subj)"

text \<open>The table of the specification; its log tool is \<open>log10\<close>.\<close>

definition spec_table :: "slaRule list" where
  "spec_table =
     [([''shortage'', ''loss'', ''debit'', ''hardstop''], [],
         \<lparr>category = ''Losses & Debits'', tat = 72\<rparr>),
      ([''payment'', ''invoice'', ''payout'', ''gst''], [''not received'', ''pending''],
         \<lparr>category = ''Payments'', tat = 12\<rparr>),
      ([''payment'', ''invoice'', ''payout'', ''gst''], [],
         \<lparr>category = ''Payments'', tat = 72\<rparr>),
      ([''cod'', ''deposit'', ''cash'', ''pendency''], [],
         \<lparr>category = ''COD'', tat = 24\<rparr>),
      ([''load'', ''volume'', ''manifest'', ''planning''], [],
         \<lparr>category = ''Orders & Planning'', tat = 12\<rparr>),
      ([''cms'', ''log10'', ''system'', ''tool'', ''bagging'', ''inactive''], [],
         \<lparr>category = ''Tech Issues'', tat = 24\<rparr>)]"

text \<open>
  The table of the background tracker: rules 3, 4 and 5 have fewer keywords than those
  of the specification.
\<close>

definition background_table :: "slaRule list" where
  "background_table =
     [([''shortage'', ''loss'', ''debit'', ''hardstop''], [],
         \<lparr>category = ''Losses & Debits'', tat = 72\<rparr>),
      ([''payment'', ''invoice'', ''payout'', ''gst''], [''not received'', ''pending''],
         \<lparr>category = ''Payments'', tat = 12\<rparr>),
      ([''payment'', ''invoice'', ''payout'', ''gst''], [],
         \<lparr>category = ''Payments'', tat = 72\<rparr>),
      ([''cod'', ''deposit'', ''cash''], [],
         \<lparr>category = ''COD'', tat = 24\<rparr>),
      ([''load'', ''volume'', ''manifest''], [],
         \<lparr>category = ''Orders & Planning'', tat = 12\<rparr>),
      ([''cms'', ''log10'', ''system''], [],
         \<lparr>category = ''Tech Issues'', tat = 24\<rparr>)]"

text \<open>
  The table of ticket-tracker.js: that of the specification, with a second rule for
  Losses and Debits (\<open>shipment\<close> together with \<open>short\<close> or \<open>missing\<close>) and with
  \<open>pending sign\<close> among the triggers of Payments.
\<close>

definition tracker_table :: "slaRule list" where
  "tracker_table =
     [([''shortage'', ''loss'', ''debit'', ''hardstop''], [],
         \<lparr>category = ''Losses & Debits'', tat = 72\<rparr>),
      ([''shipment''], [''short'', ''missing''],
         \<lparr>category = ''Losses & Debits'', tat = 72\<rparr>),
      ([''payment'', ''invoice'', ''payout'', ''gst'', ''pending sign''],
         [''not received'', ''pending''],
         \<lparr>category = ''Payments'', tat = 12\<rparr>),
      ([''payment'', ''invoice'', ''payout'', ''gst'', ''pending sign''], [],
         \<lparr>category = ''Payments'', tat = 72\<rparr>),
      ([''cod'', ''deposit'', ''cash'', ''pendency''], [],
         \<lparr>category = ''COD'', tat = 24\<rparr>),
      ([''load'', ''volume'', ''manifest'', ''planning''], [],
         \<lparr>category = ''Orders & Planning'', tat = 12\<rparr>),
      ([''cms'', ''log10'', ''system'', ''tool'', ''bagging'', ''inactive''], [],
         \<lparr>category = ''Tech Issues'', tat = 24\<rparr>)]"

text \<open>
  The trigger keywords of a table, the categories, and the keyword groups of rule 1 and
  rule 3 of the specification.
\<close>

definition triggers :: "slaRule list \<Rightarrow> string list" where
  "triggers table = concat (map fst table)"

definition categories :: "string list" where
  "categories = [''Losses & Debits'', ''Payments'', ''COD'', ''Orders & Planning'',
                 ''Tech Issues'', ''General'']"

definition rule1_keywords :: "string list" where
  "rule1_keywords = [''shortage'', ''loss'', ''debit'', ''hardstop'']"

definition rule3_keywords :: "string list" where
  "rule3_keywords = [''cod'', ''deposit'', ''cash'', ''pendency'']"

definition matchesAny :: "string \<Rightarrow> string list \<Rightarrow> bool" where
  "matchesAny subj ks = list_ex (str_includes (toLowerCase subj)) ks"

section \<open>Urgency evaluator\<close>

text \<open>The \<open>icon\<close> of the source is an emoji; the field holds its code point.\<close>

record urgency =
  status :: string
  color :: string
  icon :: nat
  sortOrder :: nat

definition calculateUrgency :: "real \<Rightarrow> real \<Rightarrow> urgency" where
  "calculateUrgency tatHours elapsedHours =
     (let remaining = tatHours - elapsedHours;
          threshold = tatHours * 0.25
      in if remaining < 0
         then \<lparr>status = ''OVERDUE'', color = ''red'', icon = 0x1F534, sortOrder = 1\<rparr>
         else if remaining < threshold
         then \<lparr>status = ''DUE_SOON'', color = ''yellow'', icon = 0x1F7E1, sortOrder = 2\<rparr>
         else \<lparr>status = ''ON_TRACK'', color = ''green'', icon = 0x1F7E2, sortOrder = 3\<rparr>)"

section \<open>Date normalizer\<close>

subsection \<open>The platform's \<open>Date\<close>\<close>

text \<open>
  \<open>new Date(year, month, date, hours, minutes, seconds).getTime()\<close> after ECMAScript:
  a year from 0 to 99 means 1900 + year, the month index and every other field overflow
  into the next unit (\<open>MakeDay\<close>, \<open>MakeTime\<close>, \<open>MakeDate\<close>), and the local time value is
  converted by the host's \<open>utc\<close>. The range check of \<open>TimeClip\<close> (an instant beyond
  8.64e15 ms is NaN) is outside the embedding.
\<close>

definition InLeapYear :: "int \<Rightarrow> bool" where
  "InLeapYear y = ((y mod 4 = 0 \<and> y mod 100 \<noteq> 0) \<or> y mod 400 = 0)"

definition DayFromYear :: "int \<Rightarrow> int" where
  "DayFromYear y =
     365 * (y - 1970) + (y - 1969) div 4 - (y - 1901) div 100 + (y - 1601) div 400"

definition DayWithinYear :: "int \<Rightarrow> bool \<Rightarrow> int" where
  "DayWithinYear mn leap =
     [0, 31, 59, 90, 120, 151, 181, 212, 243, 273, 304, 334] ! nat mn
       + (if leap \<and> 2 \<le> mn then 1 else 0)"

definition MakeDay :: "int \<Rightarrow> int \<Rightarrow> int \<Rightarrow> int" where
  "MakeDay year month date =
     (let ym = year + month div 12; mn = month mod 12
      in DayFromYear ym + DayWithinYear mn (InLeapYear ym) + date - 1)"

definition MakeTime :: "int \<Rightarrow> int \<Rightarrow> int \<Rightarrow> int \<Rightarrow> int" where
  "MakeTime hour minute sec ms = hour * 3600000 + minute * 60000 + sec * 1000 + ms"

definition MakeDate :: "int \<Rightarrow> int \<Rightarrow> int" where
  "MakeDate day time = day * 86400000 + time"

definition Date_getTime ::
  "(int \<Rightarrow> int) \<Rightarrow> int \<Rightarrow> int \<Rightarrow> int \<Rightarrow> int \<Rightarrow> int \<Rightarrow> int \<Rightarrow> int" where
  "Date_getTime utc year month date hours minutes seconds =
     (let yr = (if 0 \<le> year \<and> year \<le> 99 then 1900 + year else year)
      in utc (MakeDate (MakeDay yr month date) (MakeTime hours minutes seconds 0)))"

subsection \<open>The pattern \<open>(\d{4})-(\d{2})-(\d{2}) (\d{2}):(\d{2}):(\d{2})\<close>\<close>

definition isDigit :: "char \<Rightarrow> bool" where
  "isDigit c = (let n = (of_char c :: nat) in 48 \<le> n \<and> n \<le> 57)"

definition digitVal :: "char \<Rightarrow> int" where
  "digitVal c = int (of_char c) - 48"

text \<open>\<open>ToNumber\<close> of a group of decimal digits.\<close>

definition toNumber :: "string \<Rightarrow> int" where
  "toNumber ds = foldl (\<lambda>a c. 10 * a + digitVal c) 0 ds"

text \<open>The pattern matches at the head of the string: 19 code units of fixed shape.\<close>

definition dateAt :: "string \<Rightarrow> bool" where
  "dateAt s =
     (19 \<le> length s \<and>
      list_all (\<lambda>i. isDigit (s ! i)) [0, 1, 2, 3, 5, 6, 8, 9, 11, 12, 14, 15, 17, 18] \<and>
      s ! 4 = CHR ''-'' \<and> s ! 7 = CHR ''-'' \<and> s ! 10 = CHR '' '' \<and>
      s ! 13 = CHR '':'' \<and> s ! 16 = CHR '':'')"

text \<open>
  \<open>dateStr.match(...)\<close> without anchors: the leftmost position where the pattern
  matches; the result is the matched text, \<open>None\<close> is JS \<open>null\<close>.
\<close>

fun matchDate :: "string \<Rightarrow> string option" where
  "matchDate [] = None"
| "matchDate (c # cs) = (if dateAt (c # cs) then Some (take 19 (c # cs)) else matchDate cs)"

text \<open>The six capture groups of a match, as numbers.\<close>

definition dateGroups :: "string \<Rightarrow> int \<times> int \<times> int \<times> int \<times> int \<times> int" where
  "dateGroups m =
     (toNumber (take 4 m), toNumber (take 2 (drop 5 m)), toNumber (take 2 (drop 8 m)),
      toNumber (take 2 (drop 11 m)), toNumber (take 2 (drop 14 m)),
      toNumber (take 2 (drop 17 m)))"

subsection \<open>\<open>parseDate\<close> of the background tracker\<close>

definition parseDate :: "int \<Rightarrow> (int \<Rightarrow> int) \<Rightarrow> string \<Rightarrow> int" where
  "parseDate now utc dateStr =
     (case matchDate dateStr of
        None \<Rightarrow> now
      | Some parts \<Rightarrow>
          (case dateGroups parts of (yr, mon, day, hour, mins, sec) \<Rightarrow>
             Date_getTime utc yr (mon - 1) day hour mins sec))"

subsection \<open>\<open>parseKaptureDate\<close> of the service worker\<close>

text \<open>
  The raw value of a ticket's date. An object is given by its properties \<open>year\<close>,
  \<open>month\<close>, \<open>date\<close>, \<open>hours\<close>, \<open>minutes\<close>, \<open>seconds\<close> and \<open>timestamp\<close>, each absent
  (\<open>None\<close>) or a number; \<open>DOther\<close> is every other value (\<open>null\<close>, \<open>undefined\<close>, a boolean,
  an array).
\<close>

record dateObject =
  year :: "int option"
  month :: "int option"
  date :: "int option"
  hours :: "int option"
  minutes :: "int option"
  seconds :: "int option"
  timestamp :: "int option"

datatype dateValue = DObject dateObject | DString string | DNumber int | DOther

text \<open>\<open>x || 0\<close> for a property that is absent or a number.\<close>

definition orZero :: "int option \<Rightarrow> int" where
  "orZero x = (case x of None \<Rightarrow> 0 | Some v \<Rightarrow> v)"

definition parseKaptureDate :: "int \<Rightarrow> (int \<Rightarrow> int) \<Rightarrow> dateValue \<Rightarrow> int" where
  "parseKaptureDate now utc dateValue =
     (case dateValue of
        DObject obj \<Rightarrow>
          (case (year obj, month obj, date obj) of
             (Some y, Some m, Some d) \<Rightarrow>
               Date_getTime utc (y + 1900) m d
                 (orZero (hours obj)) (orZero (minutes obj)) (orZero (seconds obj))
           | _ \<Rightarrow>
               (case timestamp obj of
                  Some ts \<Rightarrow>
                    if ts \<noteq> 0 then (if ts < 10000000000 then ts * 1000 else ts) else now
                | None \<Rightarrow> now))
      | DString str \<Rightarrow>
          (case matchDate str of
             Some parts \<Rightarrow>
               (case dateGroups parts of (yr, mon, day, hour, mins, sec) \<Rightarrow>
                  Date_getTime utc yr (mon - 1) day hour mins sec)
           | None \<Rightarrow> now)
      | DNumber n \<Rightarrow> (if n < 10000000000 then n * 1000 else n)
      | DOther \<Rightarrow> now)"

section \<open>History reconciler and ticket record builder\<close>

text \<open>
  Several objects of the source share property names. A record field whose name is
  already taken carries the initial of its record: \<open>t_\<close> for the ticket of the list
  API, \<open>r_\<close> for the stored ticket record, \<open>d_\<close> for the disposition record, \<open>s_\<close> for
  the agent statistics.
\<close>

record historyEvent =
  action :: string
  createDate :: string
  remark :: string
  substatus :: string

record ticket =
  t_id :: string
  t_ticketId :: string
  taskTitle :: string
  email :: string
  t_date :: string
  t_status :: string
  t_substatus :: string
  t_substatusName :: string
  t_ticketURL :: string

text \<open>\<open>lastEscalatedTime\<close> is \<open>null\<close> (\<open>None\<close>) or an instant.\<close>

record ticketRecord =
  r_id :: string
  ticketId :: string
  subject :: string
  customerEmail :: string
  r_status :: string
  r_substatus :: string
  substatusName :: string
  assignedTo :: string
  assignedTime :: int
  assignedTimeStr :: string
  sopCategory :: string
  tatHours :: real
  elapsedHours :: real
  remainingHours :: real
  urgencyLevel :: string
  urgencyColor :: string
  urgencyIcon :: nat
  isEscalated :: bool
  escalationCount :: nat
  lastEscalatedTime :: "int option"
  ticketURL :: string
  lastUpdate :: int

text \<open>\<open>Math.round\<close>: the nearest integer, a half going up.\<close>

definition Math_round :: "real \<Rightarrow> int" where
  "Math_round x = \<lfloor>x + 1 / 2\<rfloor>"

definition isAssignment :: "historyEvent \<Rightarrow> bool" where
  "isAssignment h = (action h = ''MANUAL ASSIGNED'')"

definition findLatestAssignment :: "historyEvent list \<Rightarrow> historyEvent option" where
  "findLatestAssignment history =
     (let assignments = filter isAssignment history
      in if length assignments = 0 then None
         else Some (assignments ! (length assignments - 1)))"

text \<open>
  \<open>remark.match(/assigned to ([^<]+)/i)\<close>: the leftmost position where the text
  \<open>assigned to \<close> stands (in either case of its letters) followed by at least one code
  unit other than \<open><\<close>; the capture group runs up to the next \<open><\<close> or the end.
\<close>

fun matchAssignedTo :: "string \<Rightarrow> string option" where
  "matchAssignedTo [] = None"
| "matchAssignedTo (c # cs) =
     (let rest = drop 12 (c # cs)
      in if startsWith (map toLowerCase_char (take 12 (c # cs))) ''assigned to '' \<and>
            rest \<noteq> [] \<and> hd rest \<noteq> CHR ''<''
         then Some (takeWhile (\<lambda>x. x \<noteq> CHR ''<'') rest)
         else matchAssignedTo cs)"

text \<open>White space of \<open>String.prototype.trim\<close> among the code units below 256.\<close>

definition isWhiteSpace :: "char \<Rightarrow> bool" where
  "isWhiteSpace c = (of_char c \<in> {9, 10, 11, 12, 13, 32, 160 :: nat})"

definition trim :: "string \<Rightarrow> string" where
  "trim s = rev (dropWhile isWhiteSpace (rev (dropWhile isWhiteSpace s)))"

definition extractAgentEmail :: "string \<Rightarrow> string" where
  "extractAgentEmail rmk =
     (case matchAssignedTo rmk of
        Some group1 \<Rightarrow> trim group1
      | None \<Rightarrow> ''Unknown'')"

definition isEscalation :: "historyEvent \<Rightarrow> bool" where
  "isEscalation h = (action h = ''DISPOSED'' \<and> substatus h = ''ETL'')"

text \<open>
  The body of \<open>processTicketHistory\<close> from \<open>findLatestAssignment\<close> to the finished
  \<open>ticketRecord\<close>; \<open>None\<close> is the early return when no assignment is found. The clock
  is read once for the whole body.
\<close>

definition buildTicketRecord ::
  "int \<Rightarrow> (int \<Rightarrow> int) \<Rightarrow> ticket \<Rightarrow> historyEvent list \<Rightarrow> ticketRecord option" where
  "buildTicketRecord now utc tk history =
     (case findLatestAssignment history of
        None \<Rightarrow> None
      | Some latestAssignment \<Rightarrow>
          (let assignedTime = parseDate now utc (createDate latestAssignment);
               elapsedMs = now - assignedTime;
               elapsedHours = real_of_int elapsedMs / (1000 * 60 * 60);
               sopMatch = matchSOPCategory (taskTitle tk);
               remainingHours = tat sopMatch - elapsedHours;
               urgency = calculateUrgency (tat sopMatch) elapsedHours;
               agentEmail = extractAgentEmail (remark latestAssignment);
               escalations = filter isEscalation history
           in Some \<lparr>
                r_id = t_id tk,
                ticketId = t_ticketId tk,
                subject = taskTitle tk,
                customerEmail = email tk,
                r_status = t_status tk,
                r_substatus = t_substatus tk,
                substatusName = t_substatusName tk,
                assignedTo = agentEmail,
                assignedTime = assignedTime,
                assignedTimeStr = createDate latestAssignment,
                sopCategory = category sopMatch,
                tatHours = tat sopMatch,
                elapsedHours = real_of_int (Math_round (elapsedHours * 10)) / 10,
                remainingHours = real_of_int (Math_round (remainingHours * 10)) / 10,
                urgencyLevel = status urgency,
                urgencyColor = color urgency,
                urgencyIcon = icon urgency,
                isEscalated = (length escalations > 0),
                escalationCount = length escalations,
                lastEscalatedTime =
                  (if length escalations > 0
                   then Some (parseDate now utc
                          (createDate (escalations ! (length escalations - 1))))
                   else None),
                ticketURL = ''https://valmostagging.kapturecrm.com'' @ t_ticketURL tk,
                lastUpdate = now\<rparr>))"

subsection \<open>Persisting a record\<close>

type_synonym tatTickets = "string \<rightharpoonup> ticketRecord"

text \<open>
  \<open>contextValid\<close> is the test \<open>chrome.runtime?.id\<close>. The calls of the storage API
  themselves succeed.
\<close>

definition storeTicketRecord :: "bool \<Rightarrow> ticketRecord \<Rightarrow> tatTickets \<Rightarrow> tatTickets" where
  "storeTicketRecord contextValid rcd store =
     (if \<not> contextValid then store else store(ticketId rcd \<mapsto> rcd))"

text \<open>
  What the history request of one ticket gives: a response that is not ok, a request
  that throws, or a body with its \<open>status\<close> and, if present, its \<open>response.history\<close>.
\<close>

datatype historyResponse =
    NotOk
  | Throws
  | Body string "historyEvent list option"

definition processTicketHistory ::
  "bool \<Rightarrow> int \<Rightarrow> (int \<Rightarrow> int) \<Rightarrow> ticket \<Rightarrow> historyResponse \<Rightarrow> tatTickets \<Rightarrow> tatTickets" where
  "processTicketHistory contextValid now utc tk resp store =
     (case resp of
        NotOk \<Rightarrow> store
      | Throws \<Rightarrow> store
      | Body st hist \<Rightarrow>
          (case hist of
             Some history \<Rightarrow>
               if st = ''Success''
               then (case buildTicketRecord now utc tk history of
                       None \<Rightarrow> store
                     | Some rcd \<Rightarrow> storeTicketRecord contextValid rcd store)
               else store
           | None \<Rightarrow> store))"

text \<open>
  The loop of \<open>fetchAndProcessTickets\<close> over the fetched tickets, one after the other.
  Each ticket comes with the state of the context, the clock and the history response
  found when its turn comes.
\<close>

fun processTickets ::
  "(int \<Rightarrow> int) \<Rightarrow> (bool \<times> int \<times> ticket \<times> historyResponse) list \<Rightarrow> tatTickets \<Rightarrow> tatTickets"
  where
  "processTickets utc [] store = store"
| "processTickets utc ((contextValid, now, tk, resp) # rest) store =
     processTickets utc rest (processTicketHistory contextValid now utc tk resp store)"

section \<open>Analytics store\<close>

record dispositionRecord =
  d_ticketId :: string
  d_subject :: string
  d_category :: string
  agent :: string
  d_assignedTime :: int
  disposedTime :: int
  d_tatHours :: real
  dispositionType :: string
  d_isEscalated :: bool
  wasOverdue :: bool

definition storeHistoricalRecord ::
  "dispositionRecord \<Rightarrow> dispositionRecord list \<Rightarrow> dispositionRecord list" where
  "storeHistoricalRecord rcd tatHistory =
     (let pushed = tatHistory @ [rcd]
      in if length pushed > 1000 then tl pushed else pushed)"

text \<open>
  \<open>recordDisposition\<close> returns the new \<open>tatHistory\<close>; an unknown ticket id leaves the
  log as it is.
\<close>

definition recordDisposition ::
  "int \<Rightarrow> tatTickets \<Rightarrow> dispositionRecord list \<Rightarrow> string \<Rightarrow> string \<Rightarrow> dispositionRecord list"
  where
  "recordDisposition now store tatHistory tid disposition =
     (case store tid of
        None \<Rightarrow> tatHistory
      | Some tk \<Rightarrow>
          (let disposedTime = now;
               tatMs = disposedTime - assignedTime tk;
               tatHrs = real_of_int tatMs / (1000 * 60 * 60)
           in storeHistoricalRecord
                \<lparr>d_ticketId = ticketId tk,
                 d_subject = subject tk,
                 d_category = sopCategory tk,
                 agent = assignedTo tk,
                 d_assignedTime = assignedTime tk,
                 disposedTime = disposedTime,
                 d_tatHours = real_of_int (Math_round (tatHrs * 10)) / 10,
                 dispositionType = disposition,
                 d_isEscalated = (disposition = ''ETL''),
                 wasOverdue = (tatHrs > tatHours tk)\<rparr>
                tatHistory))"

subsection \<open>Arithmetic of doubles\<close>

text \<open>
  The rollup adds, divides and multiplies hours, and the result of each such operation
  is a binary double: the representable number nearest to the exact result, a tie going
  to the even significand. \<open>double_of\<close> gives that number. It looks for the unit in
  the last place \<open>u\<close>, the power of two that brings the magnitude into the range from
  \<open>2^52\<close> up to \<open>2^53\<close>, not below the smallest unit \<open>2^-1074\<close> (1074 halvings of
  1), and rounds to a multiple of \<open>u\<close>. Overflow to infinity is outside the embedding.
  A number field of a stored record stands for the double nearest to it.
\<close>

fun ulp_search :: "nat \<Rightarrow> real \<Rightarrow> real \<Rightarrow> real" where
  "ulp_search 0 a u = u"
| "ulp_search (Suc n) a u =
     (if 9007199254740992 \<le> a / u then ulp_search n a (u * 2)
      else if a / u < 4503599627370496 then ulp_search n a (u / 2)
      else u)"

definition roundHalfEven :: "real \<Rightarrow> int" where
  "roundHalfEven y =
     (let f = \<lfloor>y\<rfloor>; d = y - of_int f
      in if d < 1 / 2 then f
         else if 1 / 2 < d then f + 1
         else if even f then f else f + 1)"

definition double_of :: "real \<Rightarrow> real" where
  "double_of x =
     (if x = 0 then 0
      else let u = ulp_search 1074 \<bar>x\<bar> 1 in u * of_int (roundHalfEven (x / u)))"

text \<open>The operators \<open>+\<close>, \<open>*\<close> and \<open>/\<close> on doubles.\<close>

definition dadd :: "real \<Rightarrow> real \<Rightarrow> real" where
  "dadd x y = double_of (x + y)"

definition dmul :: "real \<Rightarrow> real \<Rightarrow> real" where
  "dmul x y = double_of (x * y)"

definition ddiv :: "real \<Rightarrow> real \<Rightarrow> real" where
  "ddiv x y = double_of (x / y)"

text \<open>
  The statistics object. The early return for an agent without records has no property
  \<open>overdueRate\<close>; the field is \<open>None\<close> there. \<open>Math.round\<close> of a double is exact.
\<close>

record agentStats =
  s_agent :: string
  totalTickets :: nat
  resolved :: nat
  escalated :: nat
  escalationRate :: int
  avgTAT :: real
  overdueCount :: nat
  overdueRate :: "int option"

definition getAgentStats :: "dispositionRecord list \<Rightarrow> string \<Rightarrow> agentStats" where
  "getAgentStats tatHistory agentEmail =
     (let agentRecords = filter (\<lambda>r. agent r = agentEmail) tatHistory
      in if length agentRecords = 0
         then \<lparr>s_agent = agentEmail, totalTickets = 0, resolved = 0, escalated = 0,
               escalationRate = 0, avgTAT = 0, overdueCount = 0, overdueRate = None\<rparr>
         else
           (let resolvedN = length (filter (\<lambda>r. dispositionType r = ''RESOLVED'') agentRecords);
                escalatedN = length (filter d_isEscalated agentRecords);
                overdueN = length (filter wasOverdue agentRecords);
                avg = ddiv (foldl (\<lambda>sum r. dadd sum (double_of (d_tatHours r))) 0 agentRecords)
                        (real (length agentRecords))
            in \<lparr>s_agent = agentEmail,
                totalTickets = length agentRecords,
                resolved = resolvedN,
                escalated = escalatedN,
                escalationRate =
                  Math_round (dmul (ddiv (real escalatedN) (real (length agentRecords))) 100),
                avgTAT = ddiv (real_of_int (Math_round (dmul avg 10))) 10,
                overdueCount = overdueN,
                overdueRate =
                  Some (Math_round
                    (dmul (ddiv (real overdueN) (real (length agentRecords))) 100))\<rparr>))"

section \<open>Notions of the specification\<close>

text \<open>
  A history response in which the history was fetched and holds no MANUAL ASSIGNED
  event.
\<close>

definition noAssignmentFound :: "historyResponse \<Rightarrow> bool" where
  "noAssignmentFound resp =
     (case resp of
        Body st (Some history) \<Rightarrow> filter isAssignment history = []
      | _ \<Rightarrow> False)"

text \<open>
  The timestamp an event carries: the instant its \<open>createDate\<close> denotes, and none when
  the text holds no date. The latest assignment time of a history is the greatest
  timestamp that its MANUAL ASSIGNED events carry.
\<close>

definition eventTime :: "(int \<Rightarrow> int) \<Rightarrow> historyEvent \<Rightarrow> int option" where
  "eventTime utc e =
     (case matchDate (createDate e) of
        None \<Rightarrow> None
      | Some parts \<Rightarrow>
          (case dateGroups parts of (yr, mon, day, hour, mins, sec) \<Rightarrow>
             Some (Date_getTime utc yr (mon - 1) day hour mins sec)))"

definition latestAssignmentTime :: "(int \<Rightarrow> int) \<Rightarrow> historyEvent list \<Rightarrow> int option" where
  "latestAssignmentTime utc history =
     (let times = List.map_filter (eventTime utc) (filter isAssignment history)
      in if times = [] then None else Some (Max (set times)))"

text \<open>
  The createDate of the assignment that \<open>findLatestAssignment\<close> selects has the shape
  of the pattern.
\<close>

definition assignmentDateParses :: "historyEvent list \<Rightarrow> bool" where
  "assignmentDateParses history =
     (case findLatestAssignment history of
        None \<Rightarrow> True
      | Some e \<Rightarrow> matchDate (createDate e) \<noteq> None)"

text \<open>
  The urgency evaluator applied to two readings of a stored record: to its stored
  \<open>elapsedHours\<close>, and to the hours between its stored \<open>assignedTime\<close> and
  \<open>lastUpdate\<close>.
\<close>

definition urgencyOfStored :: "ticketRecord \<Rightarrow> string" where
  "urgencyOfStored r = status (calculateUrgency (tatHours r) (elapsedHours r))"

definition urgencyOfClock :: "ticketRecord \<Rightarrow> string" where
  "urgencyOfClock r =
     status (calculateUrgency (tatHours r)
       (real_of_int (lastUpdate r - assignedTime r) / (1000 * 60 * 60)))"

section \<open>Example data\<close>

text \<open>
  The end-to-end scenario of the specification: ticket T1, assigned once at
  2026-02-02 14:13:27, with the subject "Shortage loss not credited".
\<close>

definition example_ticket :: ticket where
  "example_ticket =
     \<lparr>t_id = ''1001'', t_ticketId = ''T1'', taskTitle = ''Shortage loss not credited'',
      email = ''hub@example.com'', t_date = ''2026-02-02 09:00:00'', t_status = ''P'',
      t_substatus = ''OP'', t_substatusName = ''Open'', t_ticketURL = ''/nui/tickets/T1''\<rparr>"

definition example_assignment :: "string \<Rightarrow> historyEvent" where
  "example_assignment created =
     \<lparr>action = ''MANUAL ASSIGNED'', createDate = created,
      remark = ''-Manual Task Assigning - assigned to Deepika Jaiswal'', substatus = ''''\<rparr>"

text \<open>A disposition record of an agent with the given TAT and escalation flag.\<close>

definition example_disposition :: "string \<Rightarrow> real \<Rightarrow> bool \<Rightarrow> dispositionRecord" where
  "example_disposition a hrs esc =
     \<lparr>d_ticketId = ''T1'', d_subject = ''Shortage loss not credited'',
      d_category = ''Losses & Debits'', agent = a, d_assignedTime = 0, disposedTime = 0,
      d_tatHours = hrs, dispositionType = (if esc then ''ETL'' else ''RESOLVED''),
      d_isEscalated = esc, wasOverdue = False\<rparr>"

text \<open>The record of T1 as a poll 80 hours after the assignment builds it.\<close>

definition example_record :: ticketRecord where
  "example_record =
     \<lparr>r_id = ''1001'', ticketId = ''T1'', subject = ''Shortage loss not credited'',
      customerEmail = ''hub@example.com'', r_status = ''P'', r_substatus = ''OP'',
      substatusName = ''Open'', assignedTo = ''Deepika Jaiswal'',
      assignedTime = 1770041607000, assignedTimeStr = ''2026-02-02 14:13:27'',
      sopCategory = ''Losses & Debits'', tatHours = 72, elapsedHours = 80,
      remainingHours = - 8, urgencyLevel = ''OVERDUE'', urgencyColor = ''red'',
      urgencyIcon = 0x1F534, isEscalated = False, escalationCount = 0,
      lastEscalatedTime = None,
      ticketURL = ''https://valmostagging.kapturecrm.com/nui/tickets/T1'',
      lastUpdate = 1770329607000\<rparr>"

section \<open>Properties of the urgency evaluator\<close>

text \<open>
  Claim C3. The urgency evaluator is a total function of the SLA hours and the elapsed
  hours. With \<open>remaining = slaHours - elapsed\<close> and the threshold a quarter of the SLA
  hours: a negative remainder is OVERDUE with sort rank 1; a remainder from 0 up to, but
  not including, the threshold is DUE_SOON with rank 2; every other remainder is
  ON_TRACK with rank 3. At 72 SLA hours and 54 elapsed hours the remainder equals the
  threshold 18 and the result is ON_TRACK; at 73 elapsed hours it is OVERDUE.
\<close>

theorem calculateUrgency_cases:
  "(slaHours - elapsed < 0 \<longrightarrow>
      status (calculateUrgency slaHours elapsed) = ''OVERDUE'' \<and>
      sortOrder (calculateUrgency slaHours elapsed) = 1) \<and>
   (0 \<le> slaHours - elapsed \<and> slaHours - elapsed < 0.25 * slaHours \<longrightarrow>
      status (calculateUrgency slaHours elapsed) = ''DUE_SOON'' \<and>
      sortOrder (calculateUrgency slaHours elapsed) = 2) \<and>
   (0 \<le> slaHours - elapsed \<and> \<not> slaHours - elapsed < 0.25 * slaHours \<longrightarrow>
      status (calculateUrgency slaHours elapsed) = ''ON_TRACK'' \<and>
      sortOrder (calculateUrgency slaHours elapsed) = 3) \<and>
   status (calculateUrgency 72 54) = ''ON_TRACK'' \<and>
   status (calculateUrgency 72 73) = ''OVERDUE''"
  by (simp add: calculateUrgency_def Let_def)

theorem calculateUrgency_cases_witness:
  "(72 - 73 < (0::real)) \<and>
   status (calculateUrgency 72 73) = ''OVERDUE'' \<and> sortOrder (calculateUrgency 72 73) = 1 \<and>
   ((0::real) \<le> 72 - 60 \<and> (72::real) - 60 < 0.25 * 72) \<and>
   status (calculateUrgency 72 60) = ''DUE_SOON'' \<and> sortOrder (calculateUrgency 72 60) = 2 \<and>
   ((0::real) \<le> 72 - 54 \<and> \<not> (72::real) - 54 < 0.25 * 72) \<and>
   status (calculateUrgency 72 54) = ''ON_TRACK'' \<and> sortOrder (calculateUrgency 72 54) = 3"
  using calculateUrgency_cases [of 72 73] calculateUrgency_cases [of 72 60]
    calculateUrgency_cases [of 72 54]
  by simp

section \<open>Properties of the SLA classifier\<close>

lemma toLowerCase_Nil_iff: "toLowerCase s = [] \<longleftrightarrow> s = []"
  by (simp add: toLowerCase_def)

lemma if_in_set: "x \<in> S \<Longrightarrow> y \<in> S \<Longrightarrow> (if b then x else y) \<in> S"
  by simp

lemma sla_results_ok:
  assumes "r \<in> {\<lparr>category = ''Losses & Debits'', tat = 72\<rparr>,
      \<lparr>category = ''Payments'', tat = 12\<rparr>, \<lparr>category = ''Payments'', tat = 72\<rparr>,
      \<lparr>category = ''COD'', tat = 24\<rparr>, \<lparr>category = ''Orders & Planning'', tat = 12\<rparr>,
      \<lparr>category = ''Tech Issues'', tat = 24\<rparr>, \<lparr>category = ''General'', tat = 48\<rparr>}"
  shows "category r \<in> set categories \<and> 0 < tat r"
  using assms by (auto simp: categories_def)

lemma matchSOPCategory_total: 
  "category (matchSOPCategory subj) \<in> set categories \<and> 0 < tat (matchSOPCategory subj)"
proof (rule sla_results_ok)
  show "matchSOPCategory subj \<in> {\<lparr>category = ''Losses & Debits'', tat = 72\<rparr>,
      \<lparr>category = ''Payments'', tat = 12\<rparr>, \<lparr>category = ''Payments'', tat = 72\<rparr>,
      \<lparr>category = ''COD'', tat = 24\<rparr>, \<lparr>category = ''Orders & Planning'', tat = 12\<rparr>,
      \<lparr>category = ''Tech Issues'', tat = 24\<rparr>, \<lparr>category = ''General'', tat = 48\<rparr>}"
    unfolding matchSOPCategory_def Let_def
    by (intro if_in_set) simp_all
qed

lemma matchSOPCategory_tracker_total: 
  "category (matchSOPCategory_tracker subj) \<in> set categories \<and>
   0 < tat (matchSOPCategory_tracker subj)"
proof (rule sla_results_ok)
  show "matchSOPCategory_tracker subj \<in> {\<lparr>category = ''Losses & Debits'', tat = 72\<rparr>,
      \<lparr>category = ''Payments'', tat = 12\<rparr>, \<lparr>category = ''Payments'', tat = 72\<rparr>,
      \<lparr>category = ''COD'', tat = 24\<rparr>, \<lparr>category = ''Orders & Planning'', tat = 12\<rparr>,
      \<lparr>category = ''Tech Issues'', tat = 24\<rparr>, \<lparr>category = ''General'', tat = 48\<rparr>}"
    unfolding matchSOPCategory_tracker_def Let_def
    by (intro if_in_set) simp_all
qed

lemma rule1_wins:
  assumes "matchesAny subj rule1_keywords"
  shows "matchSOPCategory subj = \<lparr>category = ''Losses & Debits'', tat = 72\<rparr> \<and>
      matchSOPCategory_tracker subj = \<lparr>category = ''Losses & Debits'', tat = 72\<rparr>"
proof -
  from assms have ne: "subj \<noteq> []"
    by (auto simp: matchesAny_def rule1_keywords_def toLowerCase_def)
  from assms have "str_includes (toLowerCase subj) ''shortage'' \<or>
      str_includes (toLowerCase subj) ''loss'' \<or>
      str_includes (toLowerCase subj) ''debit'' \<or>
      str_includes (toLowerCase subj) ''hardstop''"
    by (simp add: matchesAny_def rule1_keywords_def)
  then show ?thesis
    using ne
    by (elim disjE)
      (simp_all add: matchSOPCategory_def matchSOPCategory_tracker_def Let_def
        split del: if_split)
qed

lemma case_insensitive:
  assumes "toLowerCase subj = toLowerCase subj'"
  shows "matchSOPCategory subj = matchSOPCategory subj' \<and>
      matchSOPCategory_tracker subj = matchSOPCategory_tracker subj'"
proof -
  from assms have e: "(subj = []) = (subj' = [])"
    by (metis toLowerCase_Nil_iff)
  show ?thesis
    by (simp only: matchSOPCategory_def matchSOPCategory_tracker_def Let_def assms e)
qed

lemma if_disj: "(if A \<or> B then x else y) = (if A then x else if B then x else y)"
  by simp

lemma if_conj: "(if A \<and> B then x else y) = (if A then if B then x else y else y)"
  by simp

lemma matchSOPCategory_table: "matchSOPCategory subj = classify background_table subj"
proof (cases "subj = []")
  case True
  then show ?thesis
    by (simp add: matchSOPCategory_def classify_def background_table_def toLowerCase_def)
next
  case False
  then show ?thesis
    by (simp add: matchSOPCategory_def classify_def background_table_def Let_def
        if_disj if_conj cong: if_cong split del: if_split)
qed

lemma matchSOPCategory_tracker_table:
  "matchSOPCategory_tracker subj = classify tracker_table subj"
proof (cases "subj = []")
  case True
  then show ?thesis
    by (simp add: matchSOPCategory_tracker_def classify_def tracker_table_def toLowerCase_def)
next
  case False
  then show ?thesis
    by (simp add: matchSOPCategory_tracker_def classify_def tracker_table_def Let_def
        if_disj if_conj cong: if_cong split del: if_split)
qed

lemma firstMatch_unmatched:
  "\<not> list_ex (str_includes lower) (triggers table) \<Longrightarrow>
   firstMatch table lower = \<lparr>category = ''General'', tat = 48\<rparr>"
proof (induction table)
  case Nil
  then show ?case by simp
next
  case (Cons rule table)
  obtain keys extra result where r: "rule = (keys, extra, result)"
    by (cases rule) auto
  from Cons.prems r have "\<not> list_ex (str_includes lower) keys"
    and "\<not> list_ex (str_includes lower) (triggers table)"
    by (auto simp: triggers_def list_ex_iff)
  with Cons.IH r show ?case by simp
qed

text \<open>
  Claim C2 as the specification states it fails for both copies. The background tracker
  does not know the keyword \<open>pendency\<close> of rule 3: "Pendency report" is COD with 24
  hours by the table of the specification and General with 48 hours by the code. And
  ticket-tracker.js has triggers the table does not have: "Shipment missing" holds no
  keyword of the table, which makes it General with 48 hours, and the code makes it
  Losses and Debits with 72 hours.
\<close>

theorem matchSOPCategory_table_counterexample:
  "matchesAny ''Pendency report'' rule3_keywords \<and>
   classify spec_table ''Pendency report'' = \<lparr>category = ''COD'', tat = 24\<rparr> \<and>
   matchSOPCategory ''Pendency report'' = \<lparr>category = ''General'', tat = 48\<rparr> \<and>
   \<not> matchesAny ''Shipment missing'' (triggers spec_table) \<and>
   classify spec_table ''Shipment missing'' = \<lparr>category = ''General'', tat = 48\<rparr> \<and>
   matchSOPCategory_tracker ''Shipment missing'' =
     \<lparr>category = ''Losses & Debits'', tat = 72\<rparr>"
  by code_simp

text \<open>
  Claim C2, amended. Each copy of the classifier is the search of the lower-cased
  subject over its own ordered table, the first matching rule winning: the background
  tracker over the table of the specification without \<open>pendency\<close>, \<open>planning\<close>,
  \<open>tool\<close>, \<open>bagging\<close> and \<open>inactive\<close>; ticket-tracker.js over the table of the
  specification with \<open>shipment\<close> (together with \<open>short\<close> or \<open>missing\<close>) as a second
  trigger of Losses and Debits and \<open>pending sign\<close> as a trigger of Payments. For every
  subject, the empty one included, both return one of the six categories with positive
  SLA hours; two subjects with the same lower-case form are classified alike; a subject
  that holds a keyword of rule 1 (shortage, loss, debit, hardstop) and a keyword of
  rule 3 (cod, deposit, cash, pendency) is Losses and Debits with 72 hours; the empty
  subject, and a subject that holds no trigger keyword of the copy's table, is General
  with 48 hours.
\<close>

theorem matchSOPCategory_first_match:
  "matchSOPCategory subj = classify background_table subj \<and>
   matchSOPCategory_tracker subj = classify tracker_table subj \<and>
   category (matchSOPCategory subj) \<in> set categories \<and> 0 < tat (matchSOPCategory subj) \<and>
   category (matchSOPCategory_tracker subj) \<in> set categories \<and>
   0 < tat (matchSOPCategory_tracker subj) \<and>
   (matchesAny subj rule1_keywords \<and> matchesAny subj rule3_keywords \<longrightarrow>
      matchSOPCategory subj = \<lparr>category = ''Losses & Debits'', tat = 72\<rparr> \<and>
      matchSOPCategory_tracker subj = \<lparr>category = ''Losses & Debits'', tat = 72\<rparr>) \<and>
   (toLowerCase subj = toLowerCase subj' \<longrightarrow>
      matchSOPCategory subj = matchSOPCategory subj' \<and>
      matchSOPCategory_tracker subj = matchSOPCategory_tracker subj') \<and>
   matchSOPCategory [] = \<lparr>category = ''General'', tat = 48\<rparr> \<and>
   matchSOPCategory_tracker [] = \<lparr>category = ''General'', tat = 48\<rparr> \<and>
   (\<not> matchesAny subj (triggers background_table) \<longrightarrow>
      matchSOPCategory subj = \<lparr>category = ''General'', tat = 48\<rparr>) \<and>
   (\<not> matchesAny subj (triggers tracker_table) \<longrightarrow>
      matchSOPCategory_tracker subj = \<lparr>category = ''General'', tat = 48\<rparr>)"
proof -
  have empty: "matchSOPCategory [] = \<lparr>category = ''General'', tat = 48\<rparr> \<and>
      matchSOPCategory_tracker [] = \<lparr>category = ''General'', tat = 48\<rparr>"
    by (simp add: matchSOPCategory_def matchSOPCategory_tracker_def)
  have unmatched: "matchSOPCategory subj = \<lparr>category = ''General'', tat = 48\<rparr>"
    if "\<not> matchesAny subj (triggers background_table)"
    using that
    by (simp add: matchSOPCategory_table classify_def matchesAny_def firstMatch_unmatched)
  have unmatched': "matchSOPCategory_tracker subj = \<lparr>category = ''General'', tat = 48\<rparr>"
    if "\<not> matchesAny subj (triggers tracker_table)"
    using that
    by (simp add: matchSOPCategory_tracker_table classify_def matchesAny_def
        firstMatch_unmatched)
  from matchSOPCategory_table [of subj] matchSOPCategory_tracker_table [of subj]
    matchSOPCategory_total [of subj] matchSOPCategory_tracker_total [of subj]
    rule1_wins [of subj] case_insensitive [of subj subj'] empty unmatched unmatched'
  show ?thesis by blast
qed

theorem matchSOPCategory_first_match_witness:
  "(matchesAny ''COD Pendency LOSS'' rule1_keywords \<and>
    matchesAny ''COD Pendency LOSS'' rule3_keywords) \<and>
   matchSOPCategory ''COD Pendency LOSS'' = \<lparr>category = ''Losses & Debits'', tat = 72\<rparr> \<and>
   matchSOPCategory_tracker ''COD Pendency LOSS'' =
     \<lparr>category = ''Losses & Debits'', tat = 72\<rparr> \<and>
   toLowerCase ''COD Pendency LOSS'' = toLowerCase ''cod pendency loss'' \<and>
   matchSOPCategory ''COD Pendency LOSS'' = matchSOPCategory ''cod pendency loss'' \<and>
   matchSOPCategory_tracker ''COD Pendency LOSS'' =
     matchSOPCategory_tracker ''cod pendency loss'' \<and>
   \<not> matchesAny ''Where is my parcel'' (triggers background_table) \<and>
   matchSOPCategory ''Where is my parcel'' = \<lparr>category = ''General'', tat = 48\<rparr> \<and>
   \<not> matchesAny ''Where is my parcel'' (triggers tracker_table) \<and>
   matchSOPCategory_tracker ''Where is my parcel'' = \<lparr>category = ''General'', tat = 48\<rparr>"
proof -
  have h1: "matchesAny ''COD Pendency LOSS'' rule1_keywords"
    by code_simp
  have h2: "matchesAny ''COD Pendency LOSS'' rule3_keywords"
    by code_simp
  have h3: "toLowerCase ''COD Pendency LOSS'' = toLowerCase ''cod pendency loss''"
    by code_simp
  have h4: "\<not> matchesAny ''Where is my parcel'' (triggers tracker_table)"
    by code_simp
  have h5: "\<not> matchesAny ''Where is my parcel'' (triggers background_table)"
    by code_simp
  from h1 h2 h3 h4 h5
    matchSOPCategory_first_match [of "''COD Pendency LOSS''" "''cod pendency loss''"]
    matchSOPCategory_first_match [of "''Where is my parcel''" "''Where is my parcel''"]
  show ?thesis by blast
qed

section \<open>Properties of the date normalizer\<close>

lemma matchDate_head: "dateAt str \<Longrightarrow> matchDate str = Some (take 19 str)"
  by (cases str) (simp_all add: dateAt_def)

lemma dateGroups_take:
  "dateGroups (take 19 str) =
     (toNumber (take 4 str), toNumber (take 2 (drop 5 str)), toNumber (take 2 (drop 8 str)),
      toNumber (take 2 (drop 11 str)), toNumber (take 2 (drop 14 str)),
      toNumber (take 2 (drop 17 str)))"
  by (simp add: dateGroups_def drop_take)

lemma legacy_example:
  "MakeDate (MakeDay 2026 1 2) (MakeTime 14 13 27 0) = 1770041607000"
  by (simp add: MakeDate_def MakeDay_def MakeTime_def DayFromYear_def DayWithinYear_def
      InLeapYear_def)

lemma string_example:
  "parseKaptureDate now utc (DString ''2026-02-02 14:13:27'') = utc 1770041607000"
  by (simp add: parseKaptureDate_def dateAt_def isDigit_def dateGroups_def toNumber_def
      digitVal_def Date_getTime_def MakeDate_def MakeDay_def MakeTime_def DayFromYear_def
      DayWithinYear_def InLeapYear_def)

text \<open>
  Claim C4. The normalizer of the service worker returns an instant for every raw value.
  An object with \<open>year\<close>, \<open>month\<close> and \<open>date\<close> is decoded with \<open>year + 1900\<close> and the
  month as a zero-based index, absent clock fields counting as 0; the object
  \<open>{year:126, month:1, date:2, hours:14, minutes:13, seconds:27}\<close> is the local time
  2026-02-02 14:13:27. A number below 10,000,000,000 is seconds and is multiplied by
  1000, a number from there on is milliseconds; the same holds for a non-zero
  \<open>timestamp\<close> of an object without the three date fields. A string is read at the
  fixed positions of \<open>YYYY-MM-DD HH:MM:SS\<close>. A string without the pattern, an object
  with neither the date fields nor a non-zero timestamp, and every other value give the
  current time. On strings \<open>parseDate\<close> of the background tracker is the same function.
\<close>

theorem parseKaptureDate_cases:
  "(year obj = Some y \<and> month obj = Some m \<and> date obj = Some d \<longrightarrow>
      parseKaptureDate now utc (DObject obj) =
        Date_getTime utc (y + 1900) m d
          (orZero (hours obj)) (orZero (minutes obj)) (orZero (seconds obj))) \<and>
   parseKaptureDate now utc
      (DObject \<lparr>year = Some 126, month = Some 1, date = Some 2, hours = Some 14,
                minutes = Some 13, seconds = Some 27, timestamp = None\<rparr>) =
     utc (MakeDate (MakeDay 2026 1 2) (MakeTime 14 13 27 0)) \<and>
   MakeDate (MakeDay 2026 1 2) (MakeTime 14 13 27 0) = 1770041607000 \<and>
   (n < 10000000000 \<longrightarrow> parseKaptureDate now utc (DNumber n) = n * 1000) \<and>
   (10000000000 \<le> n \<longrightarrow> parseKaptureDate now utc (DNumber n) = n) \<and>
   parseKaptureDate now utc (DNumber 1700000000) = 1700000000000 \<and>
   parseKaptureDate now utc (DNumber 1700000000000) = 1700000000000 \<and>
   ((year obj = None \<or> month obj = None \<or> date obj = None) \<and>
    timestamp obj = Some ts \<and> ts \<noteq> 0 \<longrightarrow>
      parseKaptureDate now utc (DObject obj) = (if ts < 10000000000 then ts * 1000 else ts)) \<and>
   (dateAt str \<longrightarrow>
      parseKaptureDate now utc (DString str) =
        Date_getTime utc (toNumber (take 4 str)) (toNumber (take 2 (drop 5 str)) - 1)
          (toNumber (take 2 (drop 8 str))) (toNumber (take 2 (drop 11 str)))
          (toNumber (take 2 (drop 14 str))) (toNumber (take 2 (drop 17 str)))) \<and>
   parseKaptureDate now utc (DString ''2026-02-02 14:13:27'') = utc 1770041607000 \<and>
   (matchDate str = None \<longrightarrow> parseKaptureDate now utc (DString str) = now) \<and>
   ((year obj = None \<or> month obj = None \<or> date obj = None) \<and>
    (timestamp obj = None \<or> timestamp obj = Some 0) \<longrightarrow>
      parseKaptureDate now utc (DObject obj) = now) \<and>
   parseKaptureDate now utc DOther = now \<and>
   parseDate now utc str = parseKaptureDate now utc (DString str)"
proof -
  have legacy: "parseKaptureDate now utc (DObject obj) =
      Date_getTime utc (y + 1900) m d
        (orZero (hours obj)) (orZero (minutes obj)) (orZero (seconds obj))"
    if "year obj = Some y \<and> month obj = Some m \<and> date obj = Some d"
    using that by (simp add: parseKaptureDate_def)
  have ex: "parseKaptureDate now utc
      (DObject \<lparr>year = Some 126, month = Some 1, date = Some 2, hours = Some 14,
                minutes = Some 13, seconds = Some 27, timestamp = None\<rparr>) =
     utc (MakeDate (MakeDay 2026 1 2) (MakeTime 14 13 27 0))"
    by (simp add: parseKaptureDate_def Date_getTime_def orZero_def)
  have num: "(n < 10000000000 \<longrightarrow> parseKaptureDate now utc (DNumber n) = n * 1000) \<and>
      (10000000000 \<le> n \<longrightarrow> parseKaptureDate now utc (DNumber n) = n) \<and>
      parseKaptureDate now utc (DNumber 1700000000) = 1700000000000 \<and>
      parseKaptureDate now utc (DNumber 1700000000000) = 1700000000000"
    by (simp add: parseKaptureDate_def)
  have carried: "parseKaptureDate now utc (DObject obj) =
      (if ts < 10000000000 then ts * 1000 else ts)"
    if "(year obj = None \<or> month obj = None \<or> date obj = None) \<and>
      timestamp obj = Some ts \<and> ts \<noteq> 0"
    using that by (auto simp: parseKaptureDate_def split: option.splits)
  have fixed: "parseKaptureDate now utc (DString str) =
      Date_getTime utc (toNumber (take 4 str)) (toNumber (take 2 (drop 5 str)) - 1)
        (toNumber (take 2 (drop 8 str))) (toNumber (take 2 (drop 11 str)))
        (toNumber (take 2 (drop 14 str))) (toNumber (take 2 (drop 17 str)))"
    if "dateAt str"
    using that by (simp add: parseKaptureDate_def matchDate_head dateGroups_take)
  have garbage: "parseKaptureDate now utc (DString str) = now" if "matchDate str = None"
    using that by (simp add: parseKaptureDate_def)
  have unknown: "parseKaptureDate now utc (DObject obj) = now"
    if "(year obj = None \<or> month obj = None \<or> date obj = None) \<and>
      (timestamp obj = None \<or> timestamp obj = Some 0)"
    using that by (auto simp: parseKaptureDate_def split: option.splits)
  have other: "parseKaptureDate now utc DOther = now"
    by (simp add: parseKaptureDate_def)
  have same: "parseDate now utc str = parseKaptureDate now utc (DString str)"
    by (simp add: parseDate_def parseKaptureDate_def split: option.splits)
  from legacy ex legacy_example num carried fixed string_example garbage unknown other same
  show ?thesis by blast
qed

theorem parseKaptureDate_cases_witness:
  "parseKaptureDate 5 (\<lambda>t. t)
      (DObject \<lparr>year = Some 126, month = Some 1, date = Some 2, hours = None,
                minutes = None, seconds = None, timestamp = Some 7\<rparr>) =
     Date_getTime (\<lambda>t. t) 2026 1 2 0 0 0 \<and>
   parseKaptureDate 5 (\<lambda>t. t) (DNumber 9999999999) = 9999999999000 \<and>
   parseKaptureDate 5 (\<lambda>t. t) (DNumber 10000000000) = 10000000000 \<and>
   parseKaptureDate 5 (\<lambda>t. t)
      (DObject \<lparr>year = None, month = Some 1, date = Some 2, hours = None,
                minutes = None, seconds = None, timestamp = Some 1700000000\<rparr>) =
     1700000000000 \<and>
   dateAt ''2026-02-02 14:13:27'' \<and>
   parseKaptureDate 5 (\<lambda>t. t) (DString ''2026-02-02 14:13:27'') =
     Date_getTime (\<lambda>t. t) 2026 1 2 14 13 27 \<and>
   matchDate ''02/02/2026 02:13'' = None \<and>
   parseKaptureDate 5 (\<lambda>t. t) (DString ''02/02/2026 02:13'') = 5 \<and>
   parseKaptureDate 5 (\<lambda>t. t)
      (DObject \<lparr>year = None, month = None, date = None, hours = None,
                minutes = None, seconds = None, timestamp = Some 0\<rparr>) = 5"
proof -
  let ?legacy = "\<lparr>year = Some 126, month = Some 1, date = Some 2, hours = None,
      minutes = None, seconds = None, timestamp = Some (7::int)\<rparr>"
  let ?carried = "\<lparr>year = None, month = Some 1, date = Some 2, hours = None,
      minutes = None, seconds = None, timestamp = Some (1700000000::int)\<rparr>"
  let ?unknown = "\<lparr>year = None, month = None, date = None, hours = None,
      minutes = None, seconds = None, timestamp = Some (0::int)\<rparr>"
  have h1: "dateAt ''2026-02-02 14:13:27''"
    by (simp add: dateAt_def isDigit_def)
  have h2: "matchDate ''02/02/2026 02:13'' = None"
    by (simp add: dateAt_def)
  have n1: "toNumber ''2026'' = 2026 \<and> toNumber ''02'' = 2 \<and> toNumber ''14'' = 14 \<and>
      toNumber ''13'' = 13 \<and> toNumber ''27'' = 27"
    by (simp add: toNumber_def digitVal_def)
  from h1 h2 n1
    parseKaptureDate_cases [of ?legacy 126 1 2 5 "\<lambda>t. t" 9999999999 7
      "''2026-02-02 14:13:27''"]
    parseKaptureDate_cases [of ?carried 0 0 0 5 "\<lambda>t. t" 10000000000 1700000000
      "''02/02/2026 02:13''"]
    parseKaptureDate_cases [of ?unknown 0 0 0 5 "\<lambda>t. t" 0 0 "''''"]
  show ?thesis by (simp add: orZero_def)
qed

section \<open>Properties of the analytics store\<close>

lemma storeHistoricalRecord_last:
  "last (storeHistoricalRecord rcd tatHistory) = rcd"
proof (cases "length (tatHistory @ [rcd]) > 1000")
  case True
  then have "tl (tatHistory @ [rcd]) \<noteq> []"
    by (cases tatHistory) auto
  then have "last (tl (tatHistory @ [rcd])) = last (tatHistory @ [rcd])"
    by (simp add: last_tl)
  with True show ?thesis
    by (simp add: storeHistoricalRecord_def Let_def)
next
  case False
  then show ?thesis
    by (simp add: storeHistoricalRecord_def Let_def)
qed

text \<open>
  Claim C7. The disposition log is bounded and append-only. Storing a record in a log
  of 1000 records drops the oldest record, the head, and nothing else; storing in a
  shorter log drops nothing. In every case the new log is the old one followed by the
  new record, less at most one record at its head: the records that stay are the old
  ones, unchanged and in their order. A log of at most 1000 records stays so, and
  \<open>recordDisposition\<close>, the writer of the log, either leaves it as it is or stores
  one record in this way.
\<close>

theorem storeHistoricalRecord_bounded:
  "(length tatHistory = 1000 \<longrightarrow>
      storeHistoricalRecord rcd tatHistory = tl tatHistory @ [rcd]) \<and>
   (length tatHistory < 1000 \<longrightarrow>
      storeHistoricalRecord rcd tatHistory = tatHistory @ [rcd]) \<and>
   (\<exists>k. k \<le> 1 \<and> storeHistoricalRecord rcd tatHistory = drop k (tatHistory @ [rcd])) \<and>
   (length tatHistory \<le> 1000 \<longrightarrow> length (storeHistoricalRecord rcd tatHistory) \<le> 1000) \<and>
   (recordDisposition now store tatHistory tid disposition = tatHistory \<or>
    (\<exists>new. recordDisposition now store tatHistory tid disposition =
       storeHistoricalRecord new tatHistory))"
proof -
  have full: "storeHistoricalRecord rcd tatHistory = tl tatHistory @ [rcd]"
    if "length tatHistory = 1000"
  proof -
    from that have "tatHistory \<noteq> []" by auto
    with that show ?thesis
      by (simp add: storeHistoricalRecord_def Let_def tl_append2)
  qed
  have room: "storeHistoricalRecord rcd tatHistory = tatHistory @ [rcd]"
    if "length tatHistory < 1000"
    using that by (simp add: storeHistoricalRecord_def Let_def)
  have suffix: "\<exists>k. k \<le> 1 \<and> storeHistoricalRecord rcd tatHistory = drop k (tatHistory @ [rcd])"
  proof (cases "length (tatHistory @ [rcd]) > 1000")
    case True
    have "tl (tatHistory @ [rcd]) = drop 1 (tatHistory @ [rcd])"
      by (cases "tatHistory @ [rcd]") simp_all
    with True have "storeHistoricalRecord rcd tatHistory = drop 1 (tatHistory @ [rcd])"
      by (simp only: storeHistoricalRecord_def Let_def if_True)
    then show ?thesis by (intro exI [of _ 1]) simp
  next
    case False
    then have "storeHistoricalRecord rcd tatHistory = drop 0 (tatHistory @ [rcd])"
      by (simp add: storeHistoricalRecord_def Let_def)
    then show ?thesis by (intro exI [of _ 0]) simp
  qed
  have bound: "length (storeHistoricalRecord rcd tatHistory) \<le> 1000"
    if "length tatHistory \<le> 1000"
    using that by (cases tatHistory) (simp_all add: storeHistoricalRecord_def Let_def)
  have writer: "recordDisposition now store tatHistory tid disposition = tatHistory \<or>
      (\<exists>new. recordDisposition now store tatHistory tid disposition =
         storeHistoricalRecord new tatHistory)"
    by (cases "store tid") (auto simp: recordDisposition_def Let_def)
  from full room suffix bound writer show ?thesis by blast
qed

theorem storeHistoricalRecord_bounded_witness:
  "length (example_disposition ''old'' 1 False # replicate 999 (example_disposition ''A'' 2 False))
     = 1000 \<and>
   storeHistoricalRecord (example_disposition ''new'' 3 True)
     (example_disposition ''old'' 1 False # replicate 999 (example_disposition ''A'' 2 False)) =
     replicate 999 (example_disposition ''A'' 2 False) @ [example_disposition ''new'' 3 True] \<and>
   length [example_disposition ''old'' 1 False] < 1000 \<and>
   storeHistoricalRecord (example_disposition ''new'' 3 True)
     [example_disposition ''old'' 1 False] =
     [example_disposition ''old'' 1 False, example_disposition ''new'' 3 True]"
  using storeHistoricalRecord_bounded [of
      "example_disposition ''old'' 1 False # replicate 999 (example_disposition ''A'' 2 False)"
      "example_disposition ''new'' 3 True"]
    storeHistoricalRecord_bounded [of "[example_disposition ''old'' 1 False]"
      "example_disposition ''new'' 3 True"]
  by simp

text \<open>
  Claim C10. When \<open>recordDisposition\<close> finds the ticket, it stores exactly one new
  record, the last of the new log; that record carries the disposition type it was
  given and is marked escalated exactly when the type is the string ETL. When the
  ticket is unknown no record is created.
\<close>

theorem recordDisposition_isEscalated:
  "(store tid = Some tk \<longrightarrow>
      (\<exists>rcd. recordDisposition now store tatHistory tid disposition =
                storeHistoricalRecord rcd tatHistory \<and>
              last (recordDisposition now store tatHistory tid disposition) = rcd \<and>
              dispositionType rcd = disposition \<and>
              (d_isEscalated rcd \<longleftrightarrow> disposition = ''ETL''))) \<and>
   (store tid = None \<longrightarrow>
      recordDisposition now store tatHistory tid disposition = tatHistory)"
  by (auto simp: recordDisposition_def Let_def storeHistoricalRecord_last)

theorem recordDisposition_isEscalated_witness:
  "[''T1'' \<mapsto> example_record] ''T1'' = Some example_record \<and>
   d_isEscalated (last (recordDisposition 1770329607000 [''T1'' \<mapsto> example_record] []
      ''T1'' ''ETL'')) \<and>
   \<not> d_isEscalated (last (recordDisposition 1770329607000 [''T1'' \<mapsto> example_record] []
      ''T1'' ''RESOLVED'')) \<and>
   [''T1'' \<mapsto> example_record] ''T2'' = None \<and>
   recordDisposition 1770329607000 [''T1'' \<mapsto> example_record] [] ''T2'' ''ETL'' = []"
  using recordDisposition_isEscalated [of "[''T1'' \<mapsto> example_record]" "''T1''"
      example_record 1770329607000 "[]" "''ETL''"]
    recordDisposition_isEscalated [of "[''T1'' \<mapsto> example_record]" "''T1''"
      example_record 1770329607000 "[]" "''RESOLVED''"]
    recordDisposition_isEscalated [of "[''T1'' \<mapsto> example_record]" "''T2''"
      example_record 1770329607000 "[]" "''ETL''"]
  by auto

lemma escalation_examples:
  "Math_round (dmul (ddiv 1 3) 100) = 33"
  "Math_round (dmul (ddiv 23 40) 100) = 57"
  "Math_round (23 / 40 * 100) = 58"
  by (simp_all add: dmul_def ddiv_def Math_round_def double_of_def roundHalfEven_def
      numeral_eq_Suc)

lemma avg_examples:
  "ddiv (real_of_int (Math_round (dmul (ddiv (dadd (dadd 0 (double_of 0)) (double_of (1 / 10))) 2)
     10))) 10 = 3602879701896397 / 36028797018963968"
  "ddiv (real_of_int (Math_round (dmul (ddiv
     (dadd (dadd (dadd 0 (double_of 10)) (double_of 20)) (double_of 30)) 3) 10))) 10 = 20"
  by (simp_all add: dadd_def dmul_def ddiv_def Math_round_def double_of_def roundHalfEven_def
      numeral_eq_Suc)

text \<open>
  Claim C8 as the specification states it fails three times. The average is not the
  mean but the mean rounded to one decimal: two records of agent A with 0 and 0.1 hours
  have the mean 0.05 and the average 0.1 (the double nearest to it). The escalation
  rate is rounded after the double operations: 23 escalations of 40 are 57.5 percent,
  which rounds to 58, and the rate is 57. And the statistics of an agent without
  records have no \<open>overdueRate\<close>, so not every field of the rollup is zero there.
\<close>

theorem getAgentStats_mean_counterexample:
  "avgTAT (getAgentStats
      [example_disposition ''A'' 0 False, example_disposition ''A'' (1 / 10) False] ''A'')
     \<noteq> (0 + 1 / 10) / 2 \<and>
   avgTAT (getAgentStats
      [example_disposition ''A'' 0 False, example_disposition ''A'' (1 / 10) False] ''A'')
     = 3602879701896397 / 36028797018963968 \<and>
   escalationRate (getAgentStats
      (replicate 23 (example_disposition ''A'' 1 True) @
       replicate 17 (example_disposition ''A'' 1 False)) ''A'')
     \<noteq> Math_round (23 / 40 * 100) \<and>
   escalationRate (getAgentStats
      (replicate 23 (example_disposition ''A'' 1 True) @
       replicate 17 (example_disposition ''A'' 1 False)) ''A'') = 57 \<and>
   overdueRate (getAgentStats [] ''A'') \<noteq> Some 0"
proof -
  have a: "avgTAT (getAgentStats
      [example_disposition ''A'' 0 False, example_disposition ''A'' (1 / 10) False] ''A'')
     = 3602879701896397 / 36028797018963968"
    by (simp add: getAgentStats_def example_disposition_def Let_def avg_examples)
  have e: "escalationRate (getAgentStats
      (replicate 23 (example_disposition ''A'' 1 True) @
       replicate 17 (example_disposition ''A'' 1 False)) ''A'') = 57"
    by (simp add: getAgentStats_def example_disposition_def Let_def escalation_examples)
  have z: "overdueRate (getAgentStats [] ''A'') \<noteq> Some 0"
    by (simp add: getAgentStats_def)
  have m: "Math_round (23 / 40 * 100) = 58"
    by (rule escalation_examples)
  from a e z show ?thesis
    unfolding m by simp
qed

text \<open>
  Claim C8, amended. The statistics of an agent are computed from the agent's records
  alone. The total is their number. When there is at least one, the average TAT is
  their mean, summed and divided in double arithmetic, times ten, rounded to an integer
  with a half going up, and divided by ten; the escalation rate is the escalated count
  divided by the total and multiplied by 100 in double arithmetic, then rounded in the
  same way. TATs 10, 20 and 30 with one escalation give the average 20 and the rate 33;
  23 escalations of 40 give the rate 57. An agent without records has the total, the
  resolved and escalated counts, the escalation rate, the average and the overdue count
  all zero.
\<close>

theorem getAgentStats_rollup:
  "getAgentStats tatHistory a = getAgentStats (filter (\<lambda>r. agent r = a) tatHistory) a \<and>
   totalTickets (getAgentStats tatHistory a) =
     length (filter (\<lambda>r. agent r = a) tatHistory) \<and>
   (filter (\<lambda>r. agent r = a) tatHistory \<noteq> [] \<longrightarrow>
      avgTAT (getAgentStats tatHistory a) =
        ddiv (real_of_int (Math_round (dmul
          (ddiv (foldl (\<lambda>sum r. dadd sum (double_of (d_tatHours r))) 0
                   (filter (\<lambda>r. agent r = a) tatHistory))
                (real (length (filter (\<lambda>r. agent r = a) tatHistory))))
          10))) 10 \<and>
      escalationRate (getAgentStats tatHistory a) =
        Math_round (dmul
          (ddiv (real (length (filter d_isEscalated (filter (\<lambda>r. agent r = a) tatHistory))))
                (real (length (filter (\<lambda>r. agent r = a) tatHistory))))
          100)) \<and>
   (map d_tatHours (filter (\<lambda>r. agent r = a) tatHistory) = [10, 20, 30] \<and>
    length (filter d_isEscalated (filter (\<lambda>r. agent r = a) tatHistory)) = 1 \<longrightarrow>
      avgTAT (getAgentStats tatHistory a) = 20 \<and>
      escalationRate (getAgentStats tatHistory a) = 33) \<and>
   (length (filter (\<lambda>r. agent r = a) tatHistory) = 40 \<and>
    length (filter d_isEscalated (filter (\<lambda>r. agent r = a) tatHistory)) = 23 \<longrightarrow>
      escalationRate (getAgentStats tatHistory a) = 57) \<and>
   (filter (\<lambda>r. agent r = a) tatHistory = [] \<longrightarrow>
      totalTickets (getAgentStats tatHistory a) = 0 \<and>
      resolved (getAgentStats tatHistory a) = 0 \<and>
      escalated (getAgentStats tatHistory a) = 0 \<and>
      escalationRate (getAgentStats tatHistory a) = 0 \<and>
      avgTAT (getAgentStats tatHistory a) = 0 \<and>
      overdueCount (getAgentStats tatHistory a) = 0)"
proof -
  let ?rs = "filter (\<lambda>r. agent r = a) tatHistory"
  let ?sum = "foldl (\<lambda>sum r. dadd sum (double_of (d_tatHours r))) 0 ?rs"
  have pure: "getAgentStats tatHistory a = getAgentStats ?rs a"
    by (simp add: getAgentStats_def)
  have total: "totalTickets (getAgentStats tatHistory a) = length ?rs"
    by (simp add: getAgentStats_def Let_def)
  have avg: "avgTAT (getAgentStats tatHistory a) =
      ddiv (real_of_int (Math_round (dmul (ddiv ?sum (real (length ?rs))) 10))) 10"
    if "?rs \<noteq> []"
    using that by (simp add: getAgentStats_def Let_def)
  have rate: "escalationRate (getAgentStats tatHistory a) =
      Math_round (dmul (ddiv (real (length (filter d_isEscalated ?rs))) (real (length ?rs))) 100)"
    if "?rs \<noteq> []"
    using that by (simp add: getAgentStats_def Let_def)
  have example: "avgTAT (getAgentStats tatHistory a) = 20 \<and>
      escalationRate (getAgentStats tatHistory a) = 33"
    if h: "map d_tatHours ?rs = [10, 20, 30] \<and> length (filter d_isEscalated ?rs) = 1"
  proof -
    from h obtain r1 r2 r3 where rs: "?rs = [r1, r2, r3]"
      and t: "d_tatHours r1 = 10" "d_tatHours r2 = 20" "d_tatHours r3 = 30"
      by (auto simp: map_eq_Cons_conv)
    from rs have ne: "?rs \<noteq> []" by simp
    from rs have len: "real (length ?rs) = 3" by simp
    from rs t have sum: "?sum = dadd (dadd (dadd 0 (double_of 10)) (double_of 20)) (double_of 30)"
      by simp
    from h have esc: "real (length (filter d_isEscalated ?rs)) = 1" by simp
    from avg [OF ne] have "avgTAT (getAgentStats tatHistory a) = 20"
      by (simp only: len sum avg_examples)
    moreover from rate [OF ne] have "escalationRate (getAgentStats tatHistory a) = 33"
      by (simp only: len esc escalation_examples)
    ultimately show ?thesis by simp
  qed
  have forty: "escalationRate (getAgentStats tatHistory a) = 57"
    if h: "length ?rs = 40 \<and> length (filter d_isEscalated ?rs) = 23"
  proof -
    from h have ne: "?rs \<noteq> []" by auto
    from h have len: "real (length ?rs) = 40"
      and esc: "real (length (filter d_isEscalated ?rs)) = 23"
      by simp_all
    from rate [OF ne] show ?thesis
      by (simp only: len esc escalation_examples)
  qed
  have zero: "totalTickets (getAgentStats tatHistory a) = 0 \<and>
      resolved (getAgentStats tatHistory a) = 0 \<and>
      escalated (getAgentStats tatHistory a) = 0 \<and>
      escalationRate (getAgentStats tatHistory a) = 0 \<and>
      avgTAT (getAgentStats tatHistory a) = 0 \<and>
      overdueCount (getAgentStats tatHistory a) = 0"
    if "?rs = []"
    using that by (simp add: getAgentStats_def Let_def)
  from pure total avg rate example forty zero show ?thesis by blast
qed

theorem getAgentStats_rollup_witness:
  "filter (\<lambda>r. agent r = ''A'')
      [example_disposition ''A'' 10 False, example_disposition ''B'' 50 True,
       example_disposition ''A'' 20 True, example_disposition ''A'' 30 False] \<noteq> [] \<and>
   avgTAT (getAgentStats
      [example_disposition ''A'' 10 False, example_disposition ''B'' 50 True,
       example_disposition ''A'' 20 True, example_disposition ''A'' 30 False] ''A'') = 20 \<and>
   escalationRate (getAgentStats
      [example_disposition ''A'' 10 False, example_disposition ''B'' 50 True,
       example_disposition ''A'' 20 True, example_disposition ''A'' 30 False] ''A'') = 33 \<and>
   length (filter (\<lambda>r. agent r = ''A'')
      (replicate 23 (example_disposition ''A'' 1 True) @
       replicate 17 (example_disposition ''A'' 1 False))) = 40 \<and>
   escalationRate (getAgentStats
      (replicate 23 (example_disposition ''A'' 1 True) @
       replicate 17 (example_disposition ''A'' 1 False)) ''A'') = 57 \<and>
   filter (\<lambda>r. agent r = ''C'')
      [example_disposition ''A'' 10 False, example_disposition ''B'' 50 True,
       example_disposition ''A'' 20 True, example_disposition ''A'' 30 False] = [] \<and>
   totalTickets (getAgentStats
      [example_disposition ''A'' 10 False, example_disposition ''B'' 50 True,
       example_disposition ''A'' 20 True, example_disposition ''A'' 30 False] ''C'') = 0 \<and>
   avgTAT (getAgentStats
      [example_disposition ''A'' 10 False, example_disposition ''B'' 50 True,
       example_disposition ''A'' 20 True, example_disposition ''A'' 30 False] ''C'') = 0"
proof -
  let ?log = "[example_disposition ''A'' 10 False, example_disposition ''B'' 50 True,
       example_disposition ''A'' 20 True, example_disposition ''A'' 30 False]"
  let ?big = "replicate 23 (example_disposition ''A'' 1 True) @
       replicate 17 (example_disposition ''A'' 1 False)"
  have fa: "filter (\<lambda>r. agent r = ''A'') ?log =
      [example_disposition ''A'' 10 False, example_disposition ''A'' 20 True,
       example_disposition ''A'' 30 False]"
    by (simp add: example_disposition_def)
  have fc: "filter (\<lambda>r. agent r = ''C'') ?log = []"
    by (simp add: example_disposition_def)
  have ta: "map d_tatHours (filter (\<lambda>r. agent r = ''A'') ?log) = [10, 20, 30] \<and>
      length (filter d_isEscalated (filter (\<lambda>r. agent r = ''A'') ?log)) = 1"
    by (simp add: fa) (simp add: example_disposition_def)
  have ne: "filter (\<lambda>r. agent r = ''A'') ?log \<noteq> []"
    by (simp add: example_disposition_def)
  have tb: "length (filter (\<lambda>r. agent r = ''A'') ?big) = 40 \<and>
      length (filter d_isEscalated (filter (\<lambda>r. agent r = ''A'') ?big)) = 23"
    by (simp add: example_disposition_def)
  have ra: "avgTAT (getAgentStats ?log ''A'') = 20 \<and>
      escalationRate (getAgentStats ?log ''A'') = 33"
    by (rule getAgentStats_rollup [of ?log "''A''", THEN conjunct2, THEN conjunct2,
          THEN conjunct2, THEN conjunct1, THEN mp, OF ta])
  have rb: "escalationRate (getAgentStats ?big ''A'') = 57"
    by (rule getAgentStats_rollup [of ?big "''A''", THEN conjunct2, THEN conjunct2,
          THEN conjunct2, THEN conjunct2, THEN conjunct1, THEN mp, OF tb])
  note zc = getAgentStats_rollup [of ?log "''C''", THEN conjunct2, THEN conjunct2,
      THEN conjunct2, THEN conjunct2, THEN conjunct2, THEN mp, OF fc]
  from zc have rc: "totalTickets (getAgentStats ?log ''C'') = 0 \<and>
      avgTAT (getAgentStats ?log ''C'') = 0"
    by (elim conjE) (rule conjI)
  from tb have lb: "length (filter (\<lambda>r. agent r = ''A'') ?big) = 40" by (rule conjunct1)
  from ne ra lb rb fc rc show ?thesis by (intro conjI; elim conjE)
qed

section \<open>Properties of the reconciler and the record builder\<close>

lemma findLatestAssignment_None:
  "findLatestAssignment history = None \<longleftrightarrow> filter isAssignment history = []"
  by (simp add: findLatestAssignment_def Let_def)

lemma findLatestAssignment_Some:
  "filter isAssignment history \<noteq> [] \<Longrightarrow>
   findLatestAssignment history = Some (last (filter isAssignment history))"
  by (simp add: findLatestAssignment_def Let_def last_conv_nth)

lemma buildTicketRecord_None:
  "buildTicketRecord now utc tk history = None \<longleftrightarrow> filter isAssignment history = []"
  by (cases "findLatestAssignment history")
    (simp_all add: buildTicketRecord_def Let_def findLatestAssignment_None [symmetric])

lemma buildTicketRecord_fields:
  assumes "findLatestAssignment history = Some e"
  shows "\<exists>r. buildTicketRecord now utc tk history = Some r \<and>
    ticketId r = t_ticketId tk \<and>
    assignedTime r = parseDate now utc (createDate e) \<and>
    assignedTo r = extractAgentEmail (remark e) \<and>
    escalationCount r = length (filter isEscalation history) \<and>
    tatHours r = tat (matchSOPCategory (taskTitle tk)) \<and>
    lastUpdate r = now \<and>
    elapsedHours r =
      real_of_int (Math_round
        (real_of_int (now - parseDate now utc (createDate e)) / (1000 * 60 * 60) * 10)) / 10 \<and>
    urgencyLevel r =
      status (calculateUrgency (tat (matchSOPCategory (taskTitle tk)))
        (real_of_int (now - parseDate now utc (createDate e)) / (1000 * 60 * 60)))"
proof -
  have "Math_round (real_of_int (now - parseDate now utc (createDate e)) / 360000) =
      Math_round (real_of_int (now - parseDate now utc (createDate e)) / (1000 * 60 * 60) * 10)"
    by (rule arg_cong [where f = Math_round]) simp
  with assms show ?thesis
    by (simp add: buildTicketRecord_def Let_def)
qed

lemma processTicketHistory_frame:
  assumes "k \<noteq> t_ticketId tk"
  shows "processTicketHistory contextValid now utc tk resp store k = store k"
proof (cases "\<exists>st history rcd. resp = Body st (Some history) \<and> st = ''Success'' \<and>
    buildTicketRecord now utc tk history = Some rcd")
  case True
  then obtain st history rcd where r: "resp = Body st (Some history)" "st = ''Success''"
    "buildTicketRecord now utc tk history = Some rcd"
    by blast
  from r(3) buildTicketRecord_None [of now utc tk history]
  have "filter isAssignment history \<noteq> []" by auto
  then obtain e where "findLatestAssignment history = Some e"
    by (auto dest: findLatestAssignment_Some)
  from buildTicketRecord_fields [OF this, of now utc tk] r(3)
  have "ticketId rcd = t_ticketId tk" by auto
  with r assms show ?thesis
    by (simp add: processTicketHistory_def storeTicketRecord_def)
next
  case False
  then have "processTicketHistory contextValid now utc tk resp store = store"
    by (auto simp: processTicketHistory_def split: historyResponse.splits option.splits)
  then show ?thesis by simp
qed

lemma processTicketHistory_skip:
  assumes "noAssignmentFound resp"
  shows "processTicketHistory contextValid now utc tk resp store = store"
proof -
  from assms obtain st history where r: "resp = Body st (Some history)"
    "filter isAssignment history = []"
    by (auto simp: noAssignmentFound_def split: historyResponse.splits option.splits)
  from r(2) have "buildTicketRecord now utc tk history = None"
    by (simp add: buildTicketRecord_None)
  with r(1) show ?thesis
    by (simp add: processTicketHistory_def)
qed

lemma processTickets_skip:
  assumes "\<forall>x \<in> set batch. case x of (contextValid, now, tk, resp) \<Rightarrow>
      t_ticketId tk = k \<longrightarrow> noAssignmentFound resp"
  shows "processTickets utc batch store k = store k"
  using assms
proof (induction batch arbitrary: store)
  case Nil
  then show ?case by simp
next
  case (Cons x batch)
  obtain contextValid now tk resp where x: "x = (contextValid, now, tk, resp)"
    by (cases x) auto
  have step: "processTicketHistory contextValid now utc tk resp store k = store k"
  proof (cases "t_ticketId tk = k")
    case True
    with Cons.prems x have "noAssignmentFound resp" by simp
    then show ?thesis by (simp add: processTicketHistory_skip)
  next
    case False
    then show ?thesis by (simp add: processTicketHistory_frame)
  qed
  from Cons.prems have "\<forall>x \<in> set batch. case x of (contextValid, now, tk, resp) \<Rightarrow>
      t_ticketId tk = k \<longrightarrow> noAssignmentFound resp"
    by simp
  from Cons.IH [OF this] step x show ?case by simp
qed

text \<open>
  Claim C6. When the fetched history of a ticket holds no MANUAL ASSIGNED event, no
  record is built and \<open>processTicketHistory\<close> leaves the whole store as it is. Over a
  poll cycle: if every ticket of the batch with the ticket id \<open>k\<close> comes with such a
  history, the entry of \<open>k\<close> after the cycle is the entry before it, so a snapshot that
  was there is unmodified and none is created where there was none.
\<close>

theorem no_assignment_writes_nothing:
  "(filter isAssignment history = [] \<longrightarrow>
      buildTicketRecord now utc tk history = None \<and>
      processTicketHistory contextValid now utc tk (Body st (Some history)) store = store) \<and>
   ((\<forall>x \<in> set batch. case x of (contextValid, now, tk, resp) \<Rightarrow>
        t_ticketId tk = k \<longrightarrow> noAssignmentFound resp) \<longrightarrow>
      processTickets utc batch store k = store k)"
proof -
  have one: "buildTicketRecord now utc tk history = None \<and>
      processTicketHistory contextValid now utc tk (Body st (Some history)) store = store"
    if "filter isAssignment history = []"
    using that
    by (simp add: buildTicketRecord_None processTicketHistory_skip noAssignmentFound_def)
  from one processTickets_skip [of batch k utc store] show ?thesis by blast
qed

theorem no_assignment_writes_nothing_witness:
  "filter isAssignment [\<lparr>action = ''CREATED'', createDate = ''2026-02-02 09:00:00'',
      remark = ''Ticket created'', substatus = ''''\<rparr>] = [] \<and>
   processTicketHistory True 1770329607000 id example_ticket
     (Body ''Success'' (Some [\<lparr>action = ''CREATED'', createDate = ''2026-02-02 09:00:00'',
        remark = ''Ticket created'', substatus = ''''\<rparr>]))
     [''T1'' \<mapsto> example_record] = [''T1'' \<mapsto> example_record] \<and>
   processTickets id
     [(True, 1770329607000, example_ticket,
       Body ''Success'' (Some [\<lparr>action = ''CREATED'', createDate = ''2026-02-02 09:00:00'',
         remark = ''Ticket created'', substatus = ''''\<rparr>]))]
     [''T1'' \<mapsto> example_record] ''T1'' = Some example_record \<and>
   processTickets id
     [(True, 1770329607000, example_ticket,
       Body ''Success'' (Some [\<lparr>action = ''CREATED'', createDate = ''2026-02-02 09:00:00'',
         remark = ''Ticket created'', substatus = ''''\<rparr>]))]
     Map.empty ''T1'' = None"
proof -
  let ?h = "[\<lparr>action = ''CREATED'', createDate = ''2026-02-02 09:00:00'',
      remark = ''Ticket created'', substatus = ''''\<rparr>]"
  let ?batch = "[(True, 1770329607000::int, example_ticket, Body ''Success'' (Some ?h))]"
  have h: "filter isAssignment ?h = []"
    by (simp add: isAssignment_def)
  then have b: "\<forall>x \<in> set ?batch. case x of (contextValid, now, tk, resp) \<Rightarrow>
      t_ticketId tk = ''T1'' \<longrightarrow> noAssignmentFound resp"
    by (simp add: noAssignmentFound_def)
  from h b
    no_assignment_writes_nothing [of ?h 1770329607000 id example_ticket True "''Success''"
      "[''T1'' \<mapsto> example_record]" ?batch "''T1''"]
    no_assignment_writes_nothing [of ?h 1770329607000 id example_ticket True "''Success''"
      Map.empty ?batch "''T1''"]
  show ?thesis by simp
qed

lemma parseDate_example:
  "parseDate now id ''2026-02-02 14:13:27'' = 1770041607000 \<and>
   parseDate now id ''2026-02-03 10:00:00'' = 1770112800000"
  by (simp add: parseDate_def dateAt_def isDigit_def dateGroups_def toNumber_def
      digitVal_def Date_getTime_def MakeDate_def MakeDay_def MakeTime_def DayFromYear_def
      DayWithinYear_def InLeapYear_def)

lemma parseDate_fallback: "parseDate now utc ''02/02/2026 02:13'' = now"
  by (simp add: parseDate_def dateAt_def)

text \<open>
  Claim C1. Reconciliation is to take the MANUAL ASSIGNED event that is last in time,
  also when the history is not delivered oldest first, and \<open>findLatestAssignment\<close>
  is documented to find the latest such event and return the most recent one. It
  returns the last one of the array instead. For the history of two assignments, of
  2026-02-03 10:00:00 and then of 2026-02-02 14:13:27, an assignment is found, the
  latest assignment time is that of 3 February, and the assignment time of the record
  is that of 2 February.
\<close>

theorem findLatestAssignment_unsorted:
  "findLatestAssignment
     [example_assignment ''2026-02-03 10:00:00'',
      example_assignment ''2026-02-02 14:13:27''] =
     Some (example_assignment ''2026-02-02 14:13:27'') \<and>
   map_option assignedTime
     (buildTicketRecord 1770329607000 id example_ticket
        [example_assignment ''2026-02-03 10:00:00'',
         example_assignment ''2026-02-02 14:13:27'']) = Some 1770041607000 \<and>
   latestAssignmentTime id
     [example_assignment ''2026-02-03 10:00:00'',
      example_assignment ''2026-02-02 14:13:27''] = Some 1770112800000 \<and>
   map_option assignedTime
     (buildTicketRecord 1770329607000 id example_ticket
        [example_assignment ''2026-02-03 10:00:00'',
         example_assignment ''2026-02-02 14:13:27'']) \<noteq>
   latestAssignmentTime id
     [example_assignment ''2026-02-03 10:00:00'',
      example_assignment ''2026-02-02 14:13:27'']"
proof -
  let ?h = "[example_assignment ''2026-02-03 10:00:00'',
      example_assignment ''2026-02-02 14:13:27'']"
  have f: "findLatestAssignment ?h = Some (example_assignment ''2026-02-02 14:13:27'')"
    by (simp add: findLatestAssignment_def isAssignment_def example_assignment_def)
  from buildTicketRecord_fields [OF f, of 1770329607000 id example_ticket]
  have a: "map_option assignedTime (buildTicketRecord 1770329607000 id example_ticket ?h) =
      Some 1770041607000"
    by (auto simp: example_assignment_def parseDate_example)
  have t: "eventTime id (example_assignment ''2026-02-03 10:00:00'') = Some 1770112800000"
    "eventTime id (example_assignment ''2026-02-02 14:13:27'') = Some 1770041607000"
    by (simp_all add: eventTime_def example_assignment_def dateAt_def isDigit_def
        dateGroups_def toNumber_def digitVal_def Date_getTime_def MakeDate_def MakeDay_def
        MakeTime_def DayFromYear_def DayWithinYear_def InLeapYear_def)
  have g: "filter isAssignment ?h = ?h"
    by (simp add: isAssignment_def example_assignment_def)
  have b: "latestAssignmentTime id ?h = Some 1770112800000"
    unfolding latestAssignmentTime_def g
    by (simp add: List.map_filter_simps t)
  from f a b show ?thesis by (simp only:) simp
qed

text \<open>
  Claim C5 as the specification states it fails: when the createDate of the selected
  assignment does not have the shape of the pattern, the assignment time is the clock
  of the run, and two runs at different times differ.
\<close>

theorem reconcile_twice_counterexample:
  "map_option assignedTime
     (buildTicketRecord 1000 id example_ticket [example_assignment ''02/02/2026 02:13'']) \<noteq>
   map_option assignedTime
     (buildTicketRecord 2000 id example_ticket [example_assignment ''02/02/2026 02:13''])"
proof -
  let ?h = "[example_assignment ''02/02/2026 02:13'']"
  have f: "findLatestAssignment ?h = Some (example_assignment ''02/02/2026 02:13'')"
    by (simp add: findLatestAssignment_def isAssignment_def example_assignment_def)
  from buildTicketRecord_fields [OF f, of 1000 id example_ticket]
    buildTicketRecord_fields [OF f, of 2000 id example_ticket]
  show ?thesis
    by (auto simp: example_assignment_def parseDate_fallback)
qed

text \<open>
  Claim C5, amended. Two reconciliations of the same history, at any two clock
  readings, agree on whether an assignment is found, on the agent and on the escalation
  count. They agree on the assignment time whenever the createDate of the selected
  assignment has the shape of the pattern.
\<close>

theorem reconcile_twice:
  "(buildTicketRecord now utc tk history = None \<longleftrightarrow>
      buildTicketRecord now' utc tk history = None) \<and>
   map_option assignedTo (buildTicketRecord now utc tk history) =
     map_option assignedTo (buildTicketRecord now' utc tk history) \<and>
   map_option escalationCount (buildTicketRecord now utc tk history) =
     map_option escalationCount (buildTicketRecord now' utc tk history) \<and>
   (assignmentDateParses history \<longrightarrow>
      map_option assignedTime (buildTicketRecord now utc tk history) =
        map_option assignedTime (buildTicketRecord now' utc tk history))"
proof (cases "findLatestAssignment history")
  case None
  then show ?thesis
    by (simp add: buildTicketRecord_def)
next
  case (Some e)
  have t: "parseDate now utc (createDate e) = parseDate now' utc (createDate e)"
    if "assignmentDateParses history"
    using that Some by (auto simp: assignmentDateParses_def parseDate_def)
  from buildTicketRecord_fields [OF Some, of now utc tk]
  obtain r where r: "buildTicketRecord now utc tk history = Some r"
    "assignedTime r = parseDate now utc (createDate e)"
    "assignedTo r = extractAgentEmail (remark e)"
    "escalationCount r = length (filter isEscalation history)"
    by blast
  from buildTicketRecord_fields [OF Some, of now' utc tk]
  obtain r' where r': "buildTicketRecord now' utc tk history = Some r'"
    "assignedTime r' = parseDate now' utc (createDate e)"
    "assignedTo r' = extractAgentEmail (remark e)"
    "escalationCount r' = length (filter isEscalation history)"
    by blast
  from r r' t show ?thesis by simp
qed

theorem reconcile_twice_witness:
  "assignmentDateParses [example_assignment ''2026-02-02 14:13:27''] \<and>
   map_option assignedTime
     (buildTicketRecord 1000 id example_ticket [example_assignment ''2026-02-02 14:13:27'']) =
   map_option assignedTime
     (buildTicketRecord 2000 id example_ticket [example_assignment ''2026-02-02 14:13:27''])"
proof -
  let ?h = "[example_assignment ''2026-02-02 14:13:27'']"
  have f: "findLatestAssignment ?h = Some (example_assignment ''2026-02-02 14:13:27'')"
    by (simp add: findLatestAssignment_def isAssignment_def example_assignment_def)
  have p: "assignmentDateParses ?h"
    by (simp add: assignmentDateParses_def f) (simp add: example_assignment_def dateAt_def
        isDigit_def)
  from p reconcile_twice [of 1000 id example_ticket ?h 2000] show ?thesis by simp
qed

lemma example_subject: "tat (matchSOPCategory (taskTitle example_ticket)) = 72"
  unfolding example_ticket_def by code_simp

text \<open>
  Claim C9 as the specification states it fails: the urgency is computed from the
  elapsed hours before they are rounded for storage. One minute past the 72 hours of
  T1 the stored urgency is OVERDUE, the stored elapsed hours are 72.0, and the
  evaluator applied to the stored fields says DUE_SOON.
\<close>

theorem stored_urgency_counterexample:
  "map_option urgencyLevel
     (buildTicketRecord 1770300867000 id example_ticket
        [example_assignment ''2026-02-02 14:13:27'']) \<noteq>
   map_option urgencyOfStored
     (buildTicketRecord 1770300867000 id example_ticket
        [example_assignment ''2026-02-02 14:13:27'']) \<and>
   map_option urgencyLevel
     (buildTicketRecord 1770300867000 id example_ticket
        [example_assignment ''2026-02-02 14:13:27'']) = Some ''OVERDUE'' \<and>
   map_option urgencyOfStored
     (buildTicketRecord 1770300867000 id example_ticket
        [example_assignment ''2026-02-02 14:13:27'']) = Some ''DUE_SOON''"
proof -
  let ?h = "[example_assignment ''2026-02-02 14:13:27'']"
  have f: "findLatestAssignment ?h = Some (example_assignment ''2026-02-02 14:13:27'')"
    by (simp add: findLatestAssignment_def isAssignment_def example_assignment_def)
  have c: "createDate (example_assignment ''2026-02-02 14:13:27'') = ''2026-02-02 14:13:27''"
    by (simp add: example_assignment_def)
  from buildTicketRecord_fields [OF f, of 1770300867000 id example_ticket]
  obtain r where b: "buildTicketRecord 1770300867000 id example_ticket ?h = Some r"
    and fields: "tatHours r = 72" "elapsedHours r = 72" "urgencyLevel r = ''OVERDUE''"
    unfolding c
    by (auto simp: parseDate_example example_subject calculateUrgency_def Math_round_def
        Let_def)
  from fields have "urgencyOfStored r = ''DUE_SOON''"
    by (simp add: urgencyOfStored_def calculateUrgency_def Let_def)
  with b fields show ?thesis by simp
qed

text \<open>
  Claim C9, amended. In every record the builder produces, and so in every record a
  poll cycle persists, the stored urgency is a function of the record's own stored
  fields: it is the urgency evaluator applied to the stored \<open>tatHours\<close> and to the
  hours between the stored \<open>assignedTime\<close> and \<open>lastUpdate\<close>. The stored
  \<open>elapsedHours\<close> is that number of hours rounded to one decimal.
\<close>

theorem stored_urgency_of_clock:
  "(buildTicketRecord now utc tk history = Some r \<longrightarrow>
      urgencyLevel r = urgencyOfClock r \<and>
      elapsedHours r =
        real_of_int (Math_round
          (real_of_int (lastUpdate r - assignedTime r) / (1000 * 60 * 60) * 10)) / 10) \<and>
   ((\<forall>r \<in> ran store. urgencyLevel r = urgencyOfClock r) \<longrightarrow>
      (\<forall>r \<in> ran (processTickets utc batch store). urgencyLevel r = urgencyOfClock r))"
proof -
  have built: "urgencyLevel r = urgencyOfClock r \<and>
      elapsedHours r =
        real_of_int (Math_round
          (real_of_int (lastUpdate r - assignedTime r) / (1000 * 60 * 60) * 10)) / 10"
    if b: "buildTicketRecord now utc tk history = Some r" for now tk history r
  proof -
    from b buildTicketRecord_None [of now utc tk history]
    have "filter isAssignment history \<noteq> []" by auto
    then have "findLatestAssignment history = Some (last (filter isAssignment history))"
      by (rule findLatestAssignment_Some)
    from buildTicketRecord_fields [OF this, of now utc tk] b show ?thesis
      by (auto simp: urgencyOfClock_def)
  qed
  have step: "\<forall>r \<in> ran (processTicketHistory contextValid now utc tk resp store).
      urgencyLevel r = urgencyOfClock r"
    if inv: "\<forall>r \<in> ran store. urgencyLevel r = urgencyOfClock r"
    for contextValid now tk resp store
  proof (cases "\<exists>st history rcd. resp = Body st (Some history) \<and> st = ''Success'' \<and>
      buildTicketRecord now utc tk history = Some rcd \<and> contextValid")
    case True
    then obtain st history rcd where r: "resp = Body st (Some history)" "st = ''Success''"
      "buildTicketRecord now utc tk history = Some rcd" "contextValid"
      by blast
    from built [OF r(3)] have ok: "urgencyLevel rcd = urgencyOfClock rcd" by simp
    from r have "processTicketHistory contextValid now utc tk resp store =
        store(ticketId rcd \<mapsto> rcd)"
      by (simp add: processTicketHistory_def storeTicketRecord_def)
    with inv ok show ?thesis
      by (auto simp: ran_def split: if_splits)
  next
    case False
    then have "processTicketHistory contextValid now utc tk resp store = store"
      by (auto simp: processTicketHistory_def storeTicketRecord_def
          split: historyResponse.splits option.splits)
    with inv show ?thesis by simp
  qed
  have cycle: "\<forall>r \<in> ran (processTickets utc batch store). urgencyLevel r = urgencyOfClock r"
    if "\<forall>r \<in> ran store. urgencyLevel r = urgencyOfClock r"
    using that
  proof (induction batch arbitrary: store)
    case Nil
    then show ?case by simp
  next
    case (Cons x batch)
    obtain contextValid now tk resp where x: "x = (contextValid, now, tk, resp)"
      by (cases x) auto
    from step [OF Cons.prems, of contextValid now tk resp]
    have "\<forall>r \<in> ran (processTickets utc batch
        (processTicketHistory contextValid now utc tk resp store)).
        urgencyLevel r = urgencyOfClock r"
      by (rule Cons.IH)
    with x show ?case by simp
  qed
  from built [of now tk history r] cycle show ?thesis by blast
qed

theorem stored_urgency_of_clock_witness:
  "buildTicketRecord 1770300867000 id example_ticket
     [example_assignment ''2026-02-02 14:13:27''] \<noteq> None \<and>
   map_option urgencyLevel (buildTicketRecord 1770300867000 id example_ticket
     [example_assignment ''2026-02-02 14:13:27'']) =
   map_option urgencyOfClock (buildTicketRecord 1770300867000 id example_ticket
     [example_assignment ''2026-02-02 14:13:27'']) \<and>
   urgencyLevel example_record = urgencyOfClock example_record \<and>
   processTickets id
     [(True, 1770300867000, example_ticket,
       Body ''Success'' (Some [example_assignment ''2026-02-02 14:13:27'']))]
     [''T1'' \<mapsto> example_record] ''T1'' \<noteq> Some example_record \<and>
   map_option urgencyLevel (processTickets id
     [(True, 1770300867000, example_ticket,
       Body ''Success'' (Some [example_assignment ''2026-02-02 14:13:27'']))]
     [''T1'' \<mapsto> example_record] ''T1'') =
   map_option urgencyOfClock (processTickets id
     [(True, 1770300867000, example_ticket,
       Body ''Success'' (Some [example_assignment ''2026-02-02 14:13:27'']))]
     [''T1'' \<mapsto> example_record] ''T1'')"
proof -
  let ?h = "[example_assignment ''2026-02-02 14:13:27'']"
  let ?batch = "[(True, 1770300867000::int, example_ticket, Body ''Success'' (Some ?h))]"
  let ?store = "[''T1'' \<mapsto> example_record]"
  have f: "findLatestAssignment ?h = Some (example_assignment ''2026-02-02 14:13:27'')"
    by (simp add: findLatestAssignment_def isAssignment_def example_assignment_def)
  from buildTicketRecord_fields [OF f, of 1770300867000 id example_ticket]
  obtain r where b: "buildTicketRecord 1770300867000 id example_ticket ?h = Some r"
    and k: "ticketId r = ''T1''" and u: "lastUpdate r = 1770300867000"
    by (auto simp: example_ticket_def)
  have old: "urgencyLevel example_record = urgencyOfClock example_record"
    by (simp add: example_record_def urgencyOfClock_def calculateUrgency_def Let_def)
  then have inv: "\<forall>r \<in> ran ?store. urgencyLevel r = urgencyOfClock r"
    by simp
  have p: "processTickets id ?batch ?store = [''T1'' \<mapsto> r]"
    by (simp add: processTicketHistory_def storeTicketRecord_def b k)
  from u have new: "r \<noteq> example_record"
    by (auto simp: example_record_def)
  note inst = stored_urgency_of_clock [of 1770300867000 id example_ticket ?h r ?store ?batch]
  from inst b have one: "urgencyLevel r = urgencyOfClock r"
    by simp
  from inst [THEN conjunct2, THEN mp, OF inv]
  have two: "urgencyLevel r = urgencyOfClock r"
    unfolding p by simp
  from b one old new two show ?thesis
    unfolding p by simp
qed

end
